theory Spec2Isabelle
  imports Main
begin

section \<open>JavaScript values used by the image manager\<close>

text \<open>
  Strings are ASCII strings. A value that may be \<^verbatim>\<open>undefined\<close> (a data attribute that is
  not set, a field a metadata record does not have) is a \<open>string option\<close>, \<open>None\<close> being
  \<^verbatim>\<open>undefined\<close>.
\<close>

text \<open>\<^verbatim>\<open>v || d\<close> on a string that may be undefined: the empty string is falsy too.\<close>

definition or_else :: "string option \<Rightarrow> string \<Rightarrow> string" where
  "or_else v d = (case v of None \<Rightarrow> d | Some s \<Rightarrow> if s = [] then d else s)"

text \<open>Truthiness of a string that may be undefined.\<close>

definition truthy :: "string option \<Rightarrow> bool" where
  "truthy v = (case v of None \<Rightarrow> False | Some s \<Rightarrow> s \<noteq> [])"

text \<open>What a template literal or a DOM string property makes of a value.\<close>

definition to_string :: "string option \<Rightarrow> string" where
  "to_string v = (case v of None \<Rightarrow> ''undefined'' | Some s \<Rightarrow> s)"

text \<open>
  The result of \<^verbatim>\<open>parseInt\<close>: an integer or \<^verbatim>\<open>NaN\<close>. (A JavaScript number is a double; the
  integers the fallback levels use are far below \<open>2^53\<close>, where doubles are exact.)
\<close>

datatype number = Num int | NaN

definition is_space :: "char \<Rightarrow> bool" where
  "is_space c = (of_char c \<in> {9, 10, 11, 12, 13, 32 :: nat})"

definition digit_val :: "char \<Rightarrow> nat option" where
  "digit_val c =
     (let n = (of_char c :: nat) in
      if 48 \<le> n \<and> n \<le> 57 then Some (n - 48)
      else if 97 \<le> n \<and> n \<le> 122 then Some (n - 87)
      else if 65 \<le> n \<and> n \<le> 90 then Some (n - 55)
      else None)"

definition is_digit :: "nat \<Rightarrow> char \<Rightarrow> bool" where
  "is_digit R c = (case digit_val c of None \<Rightarrow> False | Some v \<Rightarrow> v < R)"

text \<open>
  \<^verbatim>\<open>parseInt(s)\<close> with no radix, as ECMAScript defines it: leading white space is dropped,
  a sign is read, a prefix \<^verbatim>\<open>0x\<close> switches to radix 16, the longest prefix of digits is the
  value, and no digit at all gives \<^verbatim>\<open>NaN\<close>.
\<close>

definition parseInt :: "string \<Rightarrow> number" where
  "parseInt s =
     (let s1 = dropWhile is_space s;
          neg = (take 1 s1 = ''-'');
          s2 = (if take 1 s1 = ''-'' \<or> take 1 s1 = ''+'' then drop 1 s1 else s1);
          hex = (take 2 s2 = ''0x'' \<or> take 2 s2 = ''0X'');
          R = (if hex then 16 else 10);
          s3 = (if hex then drop 2 s2 else s2);
          z = takeWhile (is_digit R) s3;
          v = foldl (\<lambda>a c. a * R + (case digit_val c of None \<Rightarrow> 0 | Some n \<Rightarrow> n)) 0 z
      in if z = [] then NaN else Num (if neg then - int v else int v))"

text \<open>\<^verbatim>\<open>s.replace(/-/g, ' ')\<close>\<close>

definition replace_hyphens :: "string \<Rightarrow> string" where
  "replace_hyphens s = map (\<lambda>c. if c = CHR ''-'' then CHR '' '' else c) s"

text \<open>\<^verbatim>\<open>s.toLowerCase()\<close> on ASCII.\<close>

definition toLowerCase :: "string \<Rightarrow> string" where
  "toLowerCase s =
     map (\<lambda>c. if 65 \<le> (of_char c :: nat) \<and> (of_char c :: nat) \<le> 90
              then char_of ((of_char c :: nat) + 32) else c) s"

text \<open>\<^verbatim>\<open>s.split('.').pop()\<close>: what follows the last dot, or all of \<open>s\<close> when it has none.\<close>

definition split_pop :: "string \<Rightarrow> string" where
  "split_pop s = rev (takeWhile (\<lambda>c. c \<noteq> CHR ''.'') (rev s))"

text \<open>\<^verbatim>\<open>s.indexOf(p) === 0\<close>\<close>

definition indexOf_is_0 :: "string \<Rightarrow> string \<Rightarrow> bool" where
  "indexOf_is_0 s p = (take (length p) s = p)"


section \<open>Metadata store\<close>

text \<open>
  One record of \<^verbatim>\<open>scripts/image-metadata.json\<close>. The file maps a category to an object keyed
  by image name; a map \<open>m\<close> stands for the property lookup \<^verbatim>\<open>obj[k]\<close>, \<open>None\<close> being
  \<^verbatim>\<open>undefined\<close>.
\<close>

record imageData =
  src :: "string option"
  webp :: "string option"
  optimized :: "string option"
  alt :: "string option"
  title :: "string option"
  priority :: "string option"

record seo =
  openGraph_defaultImage :: "string option"
  structuredData_businessImages :: "string list option"

record metadata =
  categories :: "string \<rightharpoonup> (string \<rightharpoonup> imageData)"
  seo :: seo

text \<open>An entry of the Stats Recorder: \<^verbatim>\<open>{ levels: [], count: 0 }\<close>.\<close>

record fallbackStat =
  levels :: "number list"
  count :: nat

text \<open>
  The fields of \<^verbatim>\<open>ImageEnhancementManager\<close> that the functions below read or write.
  \<^verbatim>\<open>imageMetadata\<close> is \<^verbatim>\<open>null\<close> until it is loaded; \<^verbatim>\<open>fallbackStats\<close> is not set by the
  constructor, so it is \<^verbatim>\<open>undefined\<close> until the first use.
\<close>

record manager =
  imageMetadata :: "metadata option"
  fallbackStats :: "(string \<rightharpoonup> fallbackStat) option"

definition constructor :: manager where
  "constructor = \<lparr>imageMetadata = None, fallbackStats = None\<rparr>"

definition createFallbackMetadata :: metadata where
  "createFallbackMetadata =
     \<lparr>categories = [''hero'' \<mapsto> Map.empty, ''services'' \<mapsto> Map.empty,
                     ''about'' \<mapsto> Map.empty, ''reviews'' \<mapsto> Map.empty],
      seo = \<lparr>openGraph_defaultImage = Some ''images/stock/hero/hero-main-plumber.png'',
             structuredData_businessImages = None\<rparr>\<rparr>"

text \<open>
  A settled promise. \<^verbatim>\<open>fetch\<close> and \<^verbatim>\<open>response.json()\<close> belong to the runtime: their outcome
  is an input of the model. A JSON document \<^verbatim>\<open>null\<close> is \<open>None\<close>.
\<close>

datatype 'a settled = Fulfilled 'a | Rejected string

record response =
  json :: "metadata option settled"

text \<open>Console output, without the emoji that starts each message in the source.\<close>

datatype console_entry = Log string | Warn string | Error string

text \<open>
  The \<^verbatim>\<open>try\<close> block of \<^verbatim>\<open>loadImageMetadata\<close>: \<open>Inl\<close> is the exception thrown by an
  \<^verbatim>\<open>await\<close> whose promise is rejected.
\<close>

definition loadImageMetadata_try ::
  "response settled \<Rightarrow> manager \<Rightarrow> string + (console_entry list \<times> manager)" where
  "loadImageMetadata_try fetched m =
     (case fetched of
        Rejected e \<Rightarrow> Inl e
      | Fulfilled response \<Rightarrow>
          (case json response of
             Rejected e \<Rightarrow> Inl e
           | Fulfilled md \<Rightarrow>
               Inr ([Log ''Image metadata loaded successfully''], m\<lparr>imageMetadata := md\<rparr>)))"

text \<open>\<^verbatim>\<open>loadImageMetadata\<close>: the \<^verbatim>\<open>catch\<close> clause handles whatever the block throws.\<close>

definition loadImageMetadata ::
  "response settled \<Rightarrow> manager \<Rightarrow> string + (console_entry list \<times> manager)" where
  "loadImageMetadata fetched m =
     (case loadImageMetadata_try fetched m of
        Inr r \<Rightarrow> Inr r
      | Inl error \<Rightarrow>
          Inr ([Warn ''Could not load image metadata, using fallback system''],
               m\<lparr>imageMetadata := Some createFallbackMetadata\<rparr>))"


section \<open>Stats Recorder\<close>

text \<open>The key \<^verbatim>\<open>`${category}/${imageName}`\<close>.\<close>

definition stats_key :: "string option \<Rightarrow> string option \<Rightarrow> string" where
  "stats_key category imageName = to_string category @ ''/'' @ to_string imageName"

definition trackFallbackUsage ::
  "manager \<Rightarrow> string option \<Rightarrow> string option \<Rightarrow> number \<Rightarrow> manager" where
  "trackFallbackUsage m category imageName fallbackLevel =
     (let stats = (case fallbackStats m of None \<Rightarrow> Map.empty | Some s \<Rightarrow> s);
          key = stats_key category imageName;
          entry = (case stats key of None \<Rightarrow> \<lparr>levels = [], count = 0\<rparr> | Some e \<Rightarrow> e)
      in m\<lparr>fallbackStats :=
             Some (stats(key \<mapsto> \<lparr>levels = levels entry @ [fallbackLevel],
                                    count = count entry + 1\<rparr>))\<rparr>)"

text \<open>\<^verbatim>\<open>getFallbackStats\<close>: \<^verbatim>\<open>this.fallbackStats || {}\<close>.\<close>

definition getFallbackStats :: "manager \<Rightarrow> (string \<rightharpoonup> fallbackStat)" where
  "getFallbackStats m = (case fallbackStats m of None \<Rightarrow> Map.empty | Some s \<Rightarrow> s)"

definition resetFallbackStats :: "manager \<Rightarrow> manager" where
  "resetFallbackStats m = m\<lparr>fallbackStats := Some Map.empty\<rparr>"

text \<open>A sequence of operations on the recorder.\<close>

datatype stats_op = Record "string option" "string option" number | Reset

fun stats_step :: "manager \<Rightarrow> stats_op \<Rightarrow> manager" where
  "stats_step m (Record category imageName level) = trackFallbackUsage m category imageName level"
| "stats_step m Reset = resetFallbackStats m"

definition stats_run :: "manager \<Rightarrow> stats_op list \<Rightarrow> manager" where
  "stats_run m ops = foldl stats_step m ops"

text \<open>The entry of a key before a call that records on it.\<close>

definition entry_before :: "manager \<Rightarrow> string \<Rightarrow> fallbackStat" where
  "entry_before m key =
     (case getFallbackStats m key of None \<Rightarrow> \<lparr>levels = [], count = 0\<rparr> | Some e \<Rightarrow> e)"


section \<open>Elements of the page\<close>

text \<open>
  An element, with the properties the manager reads or writes: its class list (a
  \<^verbatim>\<open>DOMTokenList\<close>, an ordered set of tokens), the properties of an image, the four data
  attributes, \<^verbatim>\<open>style.display\<close> and its text. \<open>img_src\<close> is the string that reading
  \<^verbatim>\<open>img.src\<close> gives. A property that an element does not use is the empty string.
  \<open>error_listeners\<close> counts the listeners
  \<^verbatim>\<open>(e) => this.handleEnhancedImageError(e.target)\<close> that \<^verbatim>\<open>addEventListener('error', ...)\<close>
  has put on the element, \<open>load_listeners\<close> the listeners
  \<^verbatim>\<open>(e) => this.handleImageLoad(e.target)\<close> for \<^verbatim>\<open>load\<close>; the manager adds no other listener
  to an element it builds.
\<close>

record element =
  classList :: "string list"
  img_src :: string
  img_alt :: string
  img_loading :: string
  dataset_fallbackLevel :: "string option"
  dataset_fallbackSrc :: "string option"
  dataset_category :: "string option"
  dataset_imageName :: "string option"
  style_display :: string
  textContent :: string
  error_listeners :: nat
  load_listeners :: nat

text \<open>\<^verbatim>\<open>document.createElement\<close>: a new element has nothing set.\<close>

definition createElement :: element where
  "createElement =
     \<lparr>classList = [], img_src = [], img_alt = [], img_loading = [],
      dataset_fallbackLevel = None, dataset_fallbackSrc = None,
      dataset_category = None, dataset_imageName = None,
      style_display = [], textContent = [], error_listeners = 0, load_listeners = 0\<rparr>"

text \<open>\<^verbatim>\<open>classList.add\<close>, \<^verbatim>\<open>classList.remove\<close> and \<^verbatim>\<open>classList.contains\<close>.\<close>

definition classList_add :: "string \<Rightarrow> element \<Rightarrow> element" where
  "classList_add c e =
     (if c \<in> set (classList e) then e else e\<lparr>classList := classList e @ [c]\<rparr>)"

definition classList_remove :: "string \<Rightarrow> element \<Rightarrow> element" where
  "classList_remove c e = e\<lparr>classList := filter (\<lambda>x. x \<noteq> c) (classList e)\<rparr>"

definition classList_contains :: "string \<Rightarrow> element \<Rightarrow> bool" where
  "classList_contains c e = (c \<in> set (classList e))"

text \<open>
  Assigning \<^verbatim>\<open>className\<close>: the class list is the string's tokens, split at ASCII white
  space, each token kept once, at its first place.
\<close>

definition is_ascii_whitespace :: "char \<Rightarrow> bool" where
  "is_ascii_whitespace c = (of_char c \<in> {9, 10, 12, 13, 32 :: nat})"

fun tokens_from :: "string \<Rightarrow> string \<Rightarrow> string list" where
  "tokens_from acc [] = (if acc = [] then [] else [acc])"
| "tokens_from acc (c # cs) =
     (if is_ascii_whitespace c then (if acc = [] then [] else [acc]) @ tokens_from [] cs
      else tokens_from (acc @ [c]) cs)"

definition class_tokens :: "string \<Rightarrow> string list" where
  "class_tokens s = rev (remdups (rev (tokens_from [] s)))"

text \<open>
  The image with the chain of its ancestors, the parent first. Each element of the chain
  carries \<open>others\<close>: the elements of its subtree that are outside the subtree of the
  chain's element below it (for the image, all its descendants). This is the part of the
  tree that \<^verbatim>\<open>closest\<close> walks, \<^verbatim>\<open>querySelector\<close> sees and \<^verbatim>\<open>appendChild\<close> extends.
\<close>

record pnode =
  elem :: element
  others :: "element list"

record dom =
  target :: pnode
  ancestors :: "pnode list"

definition path :: "dom \<Rightarrow> pnode list" where
  "path d = target d # ancestors d"

definition img :: "dom \<Rightarrow> element" where
  "img d = elem (target d)"

text \<open>
  A selector list of compound class selectors: \<^verbatim>\<open>.a, .b.c\<close> is \<open>[[a], [b, c]]\<close>.
\<close>

type_synonym selector = "string list list"

definition matches :: "selector \<Rightarrow> element \<Rightarrow> bool" where
  "matches sel e = list_ex (\<lambda>cs. list_all (\<lambda>c. classList_contains c e) cs) sel"

fun find_index :: "('a \<Rightarrow> bool) \<Rightarrow> 'a list \<Rightarrow> nat option" where
  "find_index P [] = None"
| "find_index P (x # xs) = (if P x then Some 0 else map_option Suc (find_index P xs))"

text \<open>
  \<^verbatim>\<open>img.closest(sel)\<close>: the first element, from the image itself upwards, that matches;
  the result is its position in the chain (0 is the image), \<open>None\<close> is \<^verbatim>\<open>null\<close>.
\<close>

definition closest :: "selector \<Rightarrow> dom \<Rightarrow> nat option" where
  "closest sel d = find_index (\<lambda>p. matches sel (elem p)) (path d)"

definition upd_node :: "nat \<Rightarrow> (pnode \<Rightarrow> pnode) \<Rightarrow> dom \<Rightarrow> dom" where
  "upd_node i f d =
     (case i of
        0 \<Rightarrow> d\<lparr>target := f (target d)\<rparr>
      | Suc k \<Rightarrow> d\<lparr>ancestors := (ancestors d)[k := f (ancestors d ! k)]\<rparr>)"

definition upd_elem :: "nat \<Rightarrow> (element \<Rightarrow> element) \<Rightarrow> dom \<Rightarrow> dom" where
  "upd_elem i g d = upd_node i (\<lambda>p. p\<lparr>elem := g (elem p)\<rparr>) d"

definition upd_img :: "(element \<Rightarrow> element) \<Rightarrow> dom \<Rightarrow> dom" where
  "upd_img g d = upd_elem 0 g d"

text \<open>
  The descendants of the chain's element \<open>i\<close>: the chain's elements below it, and the
  \<open>others\<close> of the elements 0 to \<open>i\<close>.
\<close>

definition descendants :: "nat \<Rightarrow> dom \<Rightarrow> element list" where
  "descendants i d = map elem (take i (path d)) @ concat (map others (take (Suc i) (path d)))"

text \<open>\<^verbatim>\<open>container.querySelector('.c')\<close> finds an element.\<close>

definition querySelector_found :: "string \<Rightarrow> nat \<Rightarrow> dom \<Rightarrow> bool" where
  "querySelector_found c i d = list_ex (classList_contains c) (descendants i d)"

text \<open>\<^verbatim>\<open>container.appendChild\<close> of a new subtree, given as the list of its elements.\<close>

definition appendChild :: "nat \<Rightarrow> element list \<Rightarrow> dom \<Rightarrow> dom" where
  "appendChild i es d = upd_node i (\<lambda>p. p\<lparr>others := others p @ es\<rparr>) d"


section \<open>Format Negotiator\<close>

text \<open>
  What reading a property gives when the property is found on a built-in object of the
  engine and not in the metadata: the access throws, or gives \<^verbatim>\<open>undefined\<close> or another
  falsy value, or gives a truthy value, described by what the builder reads of it.
\<close>

datatype member = Throws string | Falsy | Truthy imageData

text \<open>
  The runtime: what \<^verbatim>\<open>canvas.toDataURL(type)\<close> returns on a 1 x 1 canvas, and, for a name
  \<open>c\<close> of \<^verbatim>\<open>Object.prototype\<close>, what \<^verbatim>\<open>Object.prototype[c][n]\<close> gives (the members
  of the built-in functions differ between versions of an engine).
\<close>

record runtime =
  canvas_toDataURL :: "string \<Rightarrow> string"
  builtin_member :: "string \<Rightarrow> string \<Rightarrow> member"

definition checkWebPSupport :: "runtime \<Rightarrow> bool" where
  "checkWebPSupport rt = indexOf_is_0 (canvas_toDataURL rt ''image/webp'') ''data:image/webp''"


section \<open>Picture Element Builder\<close>

definition getFallbackImage :: "string \<Rightarrow> string" where
  "getFallbackImage category =
     (let fallbacks = [(''hero'', ''images/hero-bg.jpg''),
                       (''services'', ''images/residential-service.jpg''),
                       (''about'', ''images/radius-logo2.png''),
                       (''reviews'', ''images/hero-bg.jpg'')]
      in or_else (map_of fallbacks category) ''images/hero-bg.jpg'')"

definition getImageMimeType :: "string \<Rightarrow> string" where
  "getImageMimeType s =
     (let extension = toLowerCase (split_pop s);
          mimeTypes = [(''jpg'', ''image/jpeg''), (''jpeg'', ''image/jpeg''),
                       (''png'', ''image/png''), (''webp'', ''image/webp''),
                       (''gif'', ''image/gif''), (''svg'', ''image/svg+xml'')]
      in or_else (map_of mimeTypes extension) ''image/jpeg'')"

definition generateAltText :: "string \<Rightarrow> string \<Rightarrow> string" where
  "generateAltText category imageName =
     (let altTemplates =
            [(''hero'', ''Professional plumbing services Milwaukee - '' @ replace_hyphens imageName),
             (''services'', replace_hyphens imageName @ '' - Radius Works Milwaukee plumbing services''),
             (''about'', ''Radius Works team - '' @ replace_hyphens imageName),
             (''reviews'', ''Customer satisfaction - '' @ replace_hyphens imageName)]
      in or_else (map_of altTemplates category) (''Radius Works - '' @ replace_hyphens imageName))"

text \<open>A \<^verbatim>\<open>source\<close> element of a picture.\<close>

record source_el =
  srcset :: string
  source_type :: string
  dataset_format :: string

datatype picture_child = Source source_el | Img element

text \<open>The built unit: the \<^verbatim>\<open>picture\<close> element and its children in document order.\<close>

record picture =
  pic :: element
  children :: "picture_child list"

record options =
  eager :: bool

definition createFallbackPictureElement ::
  "string \<Rightarrow> string \<Rightarrow> string \<Rightarrow> options \<Rightarrow> picture" where
  "createFallbackPictureElement category imageName className opts =
     \<lparr>pic = createElement
         \<lparr>classList := class_tokens (''enhanced-picture fallback-picture '' @ className),
          dataset_category := Some category,
          dataset_imageName := Some imageName\<rparr>,
      children =
        [Img (createElement
           \<lparr>classList := class_tokens ''enhanced-image fallback-image'',
            img_src := getFallbackImage category,
            img_alt := generateAltText category imageName,
            img_loading := (if eager opts then ''eager'' else ''lazy''),
            dataset_fallbackSrc := Some (getFallbackImage category),
            dataset_category := Some category,
            dataset_imageName := Some imageName,
            error_listeners := 1,
            load_listeners := 1\<rparr>)]\<rparr>"

text \<open>
  The metadata are plain objects, so a property that is not a key of an object is looked
  for on \<^verbatim>\<open>Object.prototype\<close>. These are its string-named properties (ECMAScript with
  Annex B, which browsers implement); read on a plain object, each is a function or, for
  \<^verbatim>\<open>__proto__\<close>, \<^verbatim>\<open>Object.prototype\<close> itself: a truthy value with none of the fields of
  a record.
\<close>

definition object_prototype_names :: "string list" where
  "object_prototype_names =
     [''constructor'', ''hasOwnProperty'', ''isPrototypeOf'', ''propertyIsEnumerable'',
      ''toLocaleString'', ''toString'', ''valueOf'', ''__proto__'', ''__defineGetter__'',
      ''__defineSetter__'', ''__lookupGetter__'', ''__lookupSetter__'']"

definition no_fields :: imageData where
  "no_fields =
     \<lparr>src = None, webp = None, optimized = None, alt = None, title = None, priority = None\<rparr>"

text \<open>
  \<^verbatim>\<open>this.imageMetadata?.[category]?.[imageName]\<close>: \<open>Inl\<close> is an exception, \<open>Inr None\<close> a
  result that \<^verbatim>\<open>!imageData\<close> takes for missing, \<open>Inr (Some r)\<close> a truthy result with the
  fields \<open>r\<close>. A category that is a key of the metadata is a plain object; one that is not
  a key but a name of \<^verbatim>\<open>Object.prototype\<close> is a built-in of the runtime.
\<close>

definition lookup_imageData ::
  "runtime \<Rightarrow> manager \<Rightarrow> string \<Rightarrow> string \<Rightarrow> string + imageData option" where
  "lookup_imageData rt m category imageName =
     (case imageMetadata m of
        None \<Rightarrow> Inr None
      | Some md \<Rightarrow>
          (case categories md category of
             Some c \<Rightarrow>
               (case c imageName of
                  Some r \<Rightarrow> Inr (Some r)
                | None \<Rightarrow>
                    if imageName \<in> set object_prototype_names then Inr (Some no_fields)
                    else Inr None)
           | None \<Rightarrow>
               if category \<in> set object_prototype_names then
                 (case builtin_member rt category imageName of
                    Throws e \<Rightarrow> Inl e
                  | Falsy \<Rightarrow> Inr None
                  | Truthy r \<Rightarrow> Inr (Some r))
               else Inr None))"

text \<open>
  \<^verbatim>\<open>createPictureElement\<close>; an exception of the lookup leaves the function (\<open>Inl\<close>).
\<close>

definition createPictureElement ::
  "runtime \<Rightarrow> manager \<Rightarrow> string \<Rightarrow> string \<Rightarrow> string \<Rightarrow> options
     \<Rightarrow> string + picture" where
  "createPictureElement rt m category imageName className opts =
     (case lookup_imageData rt m category imageName of
        Inl e \<Rightarrow> Inl e
      | Inr None \<Rightarrow> Inr (createFallbackPictureElement category imageName className opts)
      | Inr (Some imageData) \<Rightarrow>
          Inr \<lparr>pic = createElement
              \<lparr>classList := class_tokens (''enhanced-picture '' @ className),
               dataset_category := Some category,
               dataset_imageName := Some imageName\<rparr>,
           children =
             (if truthy (webp imageData) \<and> checkWebPSupport rt
              then [Source \<lparr>srcset = to_string (webp imageData),
                            source_type = ''image/webp'',
                            dataset_format = ''webp''\<rparr>]
              else [])
             @ (if truthy (optimized imageData)
                then [Source \<lparr>srcset = to_string (optimized imageData),
                              source_type = getImageMimeType (to_string (optimized imageData)),
                              dataset_format = ''standard''\<rparr>]
                else [])
             @ [Img (createElement
                  \<lparr>classList := class_tokens ''enhanced-image'',
                   img_src := to_string (src imageData),
                   img_alt := or_else (alt imageData) (generateAltText category imageName),
                   img_loading := (if priority imageData = Some ''high'' \<or> eager opts
                                   then ''eager'' else ''lazy''),
                   dataset_fallbackSrc := Some (getFallbackImage category),
                   dataset_category := Some category,
                   dataset_imageName := Some imageName,
                   error_listeners := 1,
                   load_listeners := 1\<rparr>)]\<rparr>)"

text \<open>The format candidates of a unit, in document order, and its image.\<close>

fun candidates :: "picture_child list \<Rightarrow> source_el list" where
  "candidates [] = []"
| "candidates (Source s # cs) = s # candidates cs"
| "candidates (Img e # cs) = candidates cs"

fun images :: "picture_child list \<Rightarrow> element list" where
  "images [] = []"
| "images (Source s # cs) = images cs"
| "images (Img e # cs) = e # images cs"

text \<open>
  A built unit as a page fragment: the image, then the picture element as its parent,
  the picture's \<^verbatim>\<open>source\<close> children being elements without a class.
\<close>

definition dom_of :: "picture \<Rightarrow> element \<Rightarrow> dom" where
  "dom_of p e =
     \<lparr>target = \<lparr>elem = e, others = []\<rparr>,
      ancestors = [\<lparr>elem = pic p, others = map (\<lambda>s. createElement) (candidates (children p))\<rparr>]\<rparr>"


section \<open>Fallback State Machine\<close>

text \<open>\<^verbatim>\<open>parseInt(img.dataset.fallbackLevel || '0')\<close>\<close>

definition fallbackLevel_of :: "dom \<Rightarrow> number" where
  "fallbackLevel_of d = parseInt (or_else (dataset_fallbackLevel (img d)) ''0'')"

text \<open>
  The containers of the manager:
  \<^verbatim>\<open>.image-container, .service-card, .hero-image, .about-image, .enhanced-picture\<close>
\<close>

definition container_selector :: selector where
  "container_selector =
     [[''image-container''], [''service-card''], [''hero-image''], [''about-image''],
      [''enhanced-picture'']]"

text \<open>The icons are emoji; the model writes each as its code points.\<close>

definition getPlaceholderIcon :: "string option \<Rightarrow> string" where
  "getPlaceholderIcon category =
     (let icons = [(''hero'', ''U+1F3E0''), (''services'', ''U+1F527''),
                   (''about'', ''U+1F465''), (''reviews'', ''U+2B50'')]
      in or_else (map_of icons (to_string category)) ''U+1F5BC U+FE0F'')"

definition getPlaceholderText :: "string option \<Rightarrow> string" where
  "getPlaceholderText category =
     (let texts = [(''hero'', ''Professional Plumbing Services''), (''services'', ''Service Image''),
                   (''about'', ''Our Team''), (''reviews'', ''Customer Review'')]
      in or_else (map_of texts (to_string category)) ''Image'')"

text \<open>
  The placeholder is a \<^verbatim>\<open>div\<close> holding an icon \<^verbatim>\<open>div\<close> and a text \<^verbatim>\<open>div\<close>; it becomes the
  last child of the container.
\<close>

definition createPlaceholderContent :: "nat \<Rightarrow> string option \<Rightarrow> dom \<Rightarrow> dom" where
  "createPlaceholderContent container category d =
     (if querySelector_found ''placeholder-content'' container d then d
      else appendChild container
             [createElement\<lparr>classList := [''placeholder-content'']\<rparr>,
              createElement\<lparr>classList := [''placeholder-icon''],
                            textContent := getPlaceholderIcon category\<rparr>,
              createElement\<lparr>classList := [''placeholder-text''],
                            textContent := getPlaceholderText category\<rparr>] d)"

definition createErrorPlaceholder :: "nat \<Rightarrow> string option \<Rightarrow> dom \<Rightarrow> dom" where
  "createErrorPlaceholder container category d =
     (if querySelector_found ''error-placeholder'' container d then d
      else appendChild container
             [createElement\<lparr>classList := [''error-placeholder'']\<rparr>,
              createElement\<lparr>classList := [''error-icon''], textContent := ''U+26A0 U+FE0F''\<rparr>,
              createElement\<lparr>classList := [''error-text''],
                            textContent := ''Image unavailable''\<rparr>] d)"

definition attemptTertiaryFallback :: "dom \<Rightarrow> dom" where
  "attemptTertiaryFallback d =
     (let d1 = upd_img (\<lambda>e. classList_add ''fallback-tertiary''
                         (e\<lparr>dataset_fallbackLevel := Some ''2'', style_display := ''none''\<rparr>)) d
      in case closest container_selector d1 of
           None \<Rightarrow> d1
         | Some container \<Rightarrow>
             createPlaceholderContent container (dataset_category (img d1))
               (upd_elem container (classList_add ''image-placeholder'') d1))"

definition attemptSecondaryFallback :: "dom \<Rightarrow> dom" where
  "attemptSecondaryFallback d =
     (let fallbackSrc = dataset_fallbackSrc (img d)
      in if truthy fallbackSrc \<and> to_string fallbackSrc \<noteq> img_src (img d)
         then upd_img (\<lambda>e. classList_add ''fallback-secondary''
                        (e\<lparr>dataset_fallbackLevel := Some ''1'',
                           img_src := to_string fallbackSrc\<rparr>)) d
         else attemptTertiaryFallback d)"

definition handleFinalFallback :: "dom \<Rightarrow> dom" where
  "handleFinalFallback d =
     (let d1 = upd_img (\<lambda>e. classList_add ''fallback-final''
                         (e\<lparr>dataset_fallbackLevel := Some ''3'', style_display := ''none''\<rparr>)) d
      in case closest container_selector d1 of
           None \<Rightarrow> d1
         | Some container \<Rightarrow>
             createErrorPlaceholder container (dataset_category (img d1))
               (upd_elem container (classList_add ''image-failed'') d1))"

text \<open>
  \<^verbatim>\<open>handleEnhancedImageError\<close>: the \<^verbatim>\<open>switch\<close> compares with \<^verbatim>\<open>===\<close>, so \<^verbatim>\<open>NaN\<close> and every
  number other than 0 and 1 take the default branch.
\<close>

definition handleEnhancedImageError :: "manager \<Rightarrow> dom \<Rightarrow> manager \<times> dom" where
  "handleEnhancedImageError m d =
     (let fallbackLevel = parseInt (or_else (dataset_fallbackLevel (img d)) ''0'');
          d' = (if fallbackLevel = Num 0 then attemptSecondaryFallback d
                else if fallbackLevel = Num 1 then attemptTertiaryFallback d
                else handleFinalFallback d)
      in (trackFallbackUsage m (dataset_category (img d')) (dataset_imageName (img d'))
            fallbackLevel, d'))"

text \<open>\<^verbatim>\<open>handleImageError\<close>, the legacy entry point.\<close>

definition handleImageError :: "manager \<Rightarrow> dom \<Rightarrow> manager \<times> dom" where
  "handleImageError m d = handleEnhancedImageError m d"

definition handleImageLoad :: "dom \<Rightarrow> dom" where
  "handleImageLoad d =
     (let d1 = upd_img (\<lambda>e. classList_remove ''loading'' (classList_add ''loaded'' e)) d
      in case closest container_selector d1 of
           None \<Rightarrow> d1
         | Some container \<Rightarrow>
             upd_elem container
               (\<lambda>e. classList_remove ''image-failed'' (classList_remove ''image-placeholder'' e)) d1)"

text \<open>
  The document, as far as the events of one image go: the number of capturing
  \<^verbatim>\<open>error\<close> listeners that \<^verbatim>\<open>setupImageErrorHandling\<close> has put on it, each calling
  \<^verbatim>\<open>handleImageError\<close> for an image, and whether the image is in the document (the image
  of a unit that has not been inserted is not, and its events do not pass the document).
\<close>

record document =
  capture_error_listeners :: nat
  contains_image :: bool

definition new_document :: document where
  "new_document = \<lparr>capture_error_listeners = 0, contains_image = False\<rparr>"

definition setupImageErrorHandling :: "document \<Rightarrow> document" where
  "setupImageErrorHandling doc =
     doc\<lparr>capture_error_listeners := Suc (capture_error_listeners doc)\<rparr>"

text \<open>\<^verbatim>\<open>img.parentNode.replaceChild(pictureElement, img)\<close> puts the unit into the document.\<close>

definition replaceChild :: "document \<Rightarrow> document" where
  "replaceChild doc = doc\<lparr>contains_image := True\<rparr>"

text \<open>
  The events of one image. An \<^verbatim>\<open>error\<close> event goes first to the capturing listeners of
  the document, when the image is in it, and then to the listeners of the image; each of
  them calls the handler. A \<^verbatim>\<open>load\<close> event goes to the listeners of the image.
\<close>

datatype event = Failure | Success

fun process :: "document \<Rightarrow> manager \<times> dom \<Rightarrow> event \<Rightarrow> manager \<times> dom" where
  "process doc s Failure =
     (let s1 = (if contains_image doc
                then ((\<lambda>s. handleImageError (fst s) (snd s)) ^^ capture_error_listeners doc) s
                else s)
      in ((\<lambda>s. handleEnhancedImageError (fst s) (snd s)) ^^ error_listeners (img (snd s))) s1)"
| "process doc s Success = (fst s, (handleImageLoad ^^ load_listeners (img (snd s))) (snd s))"

definition process_all :: "document \<Rightarrow> manager \<times> dom \<Rightarrow> event list \<Rightarrow> manager \<times> dom" where
  "process_all doc s evs = foldl (process doc) s evs"


section \<open>The handler of the about section\<close>

text \<open>The branch \<^verbatim>\<open>case 1\<close> of \<^verbatim>\<open>handleAboutImageError\<close>.\<close>

definition handleAboutImageError_case1 :: "dom \<Rightarrow> dom" where
  "handleAboutImageError_case1 d =
     (let d1 = upd_img (\<lambda>e. classList_add ''fallback-tertiary''
                         (e\<lparr>dataset_fallbackLevel := Some ''2'', style_display := ''none''\<rparr>)) d;
          teamMember = closest [[''team-member'']] d1;
          teamPrimary = closest [[''team-primary'']] d1
      in case teamMember of
           Some t \<Rightarrow> upd_elem t (classList_add ''team-fallback'') d1
         | None \<Rightarrow>
             (case teamPrimary of
                Some t \<Rightarrow> upd_elem t (classList_add ''team-fallback'') d1
              | None \<Rightarrow> d1))"

text \<open>The branch \<^verbatim>\<open>default\<close>.\<close>

definition handleAboutImageError_default :: "dom \<Rightarrow> dom" where
  "handleAboutImageError_default d =
     (let d1 = upd_img (\<lambda>e. classList_add ''fallback-final''
                         (e\<lparr>dataset_fallbackLevel := Some ''3'', style_display := ''none''\<rparr>)) d
      in case closest [[''team-member''], [''team-primary''], [''about-team-gallery'']] d1 of
           None \<Rightarrow> d1
         | Some container \<Rightarrow> upd_elem container (classList_add ''image-failed'') d1)"

text \<open>
  The statement that ends the function: the usage is recorded when
  \<^verbatim>\<open>window.imageEnhancementManager\<close> is set (\<open>None\<close> when it is not).
\<close>

definition handleAboutImageError_track ::
  "string \<Rightarrow> string \<Rightarrow> number \<Rightarrow> manager option \<times> dom \<Rightarrow> manager option \<times> dom" where
  "handleAboutImageError_track category imageName fallbackLevel s =
     (map_option (\<lambda>m. trackFallbackUsage m (Some category) (Some imageName) fallbackLevel) (fst s),
      snd s)"

text \<open>
  \<^verbatim>\<open>handleAboutImageError\<close> calls itself in the branch \<^verbatim>\<open>case 0\<close>; whether that call
  returns is part of what the function does, so the result is an option: \<open>None\<close> is an
  invocation that does not return.
\<close>

partial_function (option) handleAboutImageError ::
  "manager option \<Rightarrow> dom \<Rightarrow> (manager option \<times> dom) option" where
  "handleAboutImageError w d =
     (let fallbackLevel = parseInt (or_else (dataset_fallbackLevel (img d)) ''0'');
          category = or_else (dataset_category (img d)) ''about'';
          imageName = or_else (dataset_imageName (img d)) ''unknown''
      in if fallbackLevel = Num 0 then
           (let fallbackSrc = dataset_fallbackSrc (img d)
            in if truthy fallbackSrc \<and> to_string fallbackSrc \<noteq> img_src (img d)
               then Some (handleAboutImageError_track category imageName fallbackLevel
                      (w, upd_img (\<lambda>e. classList_add ''fallback-secondary''
                                    (e\<lparr>dataset_fallbackLevel := Some ''1'',
                                       img_src := to_string fallbackSrc\<rparr>)) d))
               else Option.bind (handleAboutImageError w d)
                      (\<lambda>s. Some (handleAboutImageError_track category imageName fallbackLevel s)))
         else if fallbackLevel = Num 1 then
           Some (handleAboutImageError_track category imageName fallbackLevel
                  (w, handleAboutImageError_case1 d))
         else
           Some (handleAboutImageError_track category imageName fallbackLevel
                  (w, handleAboutImageError_default d)))"


section \<open>Notions used to state the properties\<close>

text \<open>Every entry of the recorder counts as many occurrences as it has levels.\<close>

definition stats_inv :: "manager \<Rightarrow> bool" where
  "stats_inv m = (\<forall>key e. getFallbackStats m key = Some e \<longrightarrow> count e = length (levels e))"

text \<open>
  The level that one call of the handler leaves, read off the \<^verbatim>\<open>switch\<close> of
  \<^verbatim>\<open>handleEnhancedImageError\<close> and the test of \<^verbatim>\<open>attemptSecondaryFallback\<close>.
\<close>

definition next_level :: "dom \<Rightarrow> number" where
  "next_level d =
     (if fallbackLevel_of d = Num 0 then
        (if truthy (dataset_fallbackSrc (img d))
            \<and> to_string (dataset_fallbackSrc (img d)) \<noteq> img_src (img d)
         then Num 1 else Num 2)
      else if fallbackLevel_of d = Num 1 then Num 2
      else Num 3)"

text \<open>\<open>k\<close> calls of the handler on an image, one after the other.\<close>

definition calls :: "nat \<Rightarrow> manager \<times> dom \<Rightarrow> manager \<times> dom" where
  "calls k s = ((\<lambda>s. handleEnhancedImageError (fst s) (snd s)) ^^ k) s"

text \<open>The key lookup of the metadata alone, without what a plain object inherits.\<close>

definition own_record :: "manager \<Rightarrow> string \<Rightarrow> string \<Rightarrow> imageData option" where
  "own_record m category imageName =
     (case imageMetadata m of
        None \<Rightarrow> None
      | Some md \<Rightarrow> (case categories md category of None \<Rightarrow> None | Some c \<Rightarrow> c imageName))"

text \<open>
  The presentation that \<^verbatim>\<open>handleFinalFallback\<close> gives a failed image: the level attribute
  is 3, the image is hidden and tagged \<^verbatim>\<open>fallback-final\<close>, and its container, when it has
  one, is marked \<^verbatim>\<open>image-failed\<close> and holds an error indicator.
\<close>

definition failed_presentation :: "dom \<Rightarrow> bool" where
  "failed_presentation d =
     (dataset_fallbackLevel (img d) = Some ''3'' \<and> style_display (img d) = ''none''
      \<and> classList_contains ''fallback-final'' (img d)
      \<and> (case closest container_selector d of
            None \<Rightarrow> True
          | Some container \<Rightarrow>
              classList_contains ''image-failed'' (elem (path d ! container))
              \<and> querySelector_found ''error-placeholder'' container d))"

text \<open>The phrase of a category in the templates of \<^verbatim>\<open>generateAltText\<close>.\<close>

definition category_phrase :: "string \<Rightarrow> string" where
  "category_phrase category =
     (if category = ''hero'' then ''Professional plumbing services Milwaukee''
      else if category = ''services'' then ''Radius Works Milwaukee plumbing services''
      else if category = ''about'' then ''Radius Works team''
      else if category = ''reviews'' then ''Customer satisfaction''
      else ''Radius Works'')"

text \<open>
  The metadata file cannot be loaded: the promise of \<^verbatim>\<open>fetch\<close> or that of
  \<^verbatim>\<open>response.json()\<close> is rejected.
\<close>

definition cannot_load :: "response settled \<Rightarrow> bool" where
  "cannot_load fetched =
     (case fetched of
        Rejected e \<Rightarrow> True
      | Fulfilled response \<Rightarrow>
          (case json response of Rejected e \<Rightarrow> True | Fulfilled md \<Rightarrow> False))"


section \<open>A unit of the test suite\<close>

text \<open>
  The record \<^verbatim>\<open>hero/test-image\<close> of the tests' metadata, the two canvases that the tests
  mock, and the unit built from the record.
\<close>

definition test_record :: imageData where
  "test_record =
     \<lparr>src = Some ''images/stock/hero/test-image.png'',
      webp = Some ''images/optimized/hero/test-image.webp'',
      optimized = Some ''images/optimized/hero/test-image.png'',
      alt = Some ''Test image for fallback system'',
      title = None,
      priority = Some ''high''\<rparr>"

definition test_metadata :: metadata where
  "test_metadata =
     \<lparr>categories = [''hero'' \<mapsto> [''test-image'' \<mapsto> test_record]],
      seo = \<lparr>openGraph_defaultImage = None, structuredData_businessImages = None\<rparr>\<rparr>"

definition test_manager :: manager where
  "test_manager = constructor\<lparr>imageMetadata := Some test_metadata\<rparr>"

text \<open>
  The members of the built-ins of \<^verbatim>\<open>Object.prototype\<close> as ECMAScript 2024 with Annex B
  specifies them. \<^verbatim>\<open>__proto__\<close> is \<^verbatim>\<open>Object.prototype\<close>, whose own \<^verbatim>\<open>__proto__\<close> is
  \<^verbatim>\<open>null\<close>; every other name is a function: \<^verbatim>\<open>caller\<close> and \<^verbatim>\<open>arguments\<close> throw a
  \<^verbatim>\<open>TypeError\<close>, \<^verbatim>\<open>length\<close> is the number of parameters, \<^verbatim>\<open>name\<close> a non-empty string,
  the properties of \<^verbatim>\<open>Function.prototype\<close> and \<^verbatim>\<open>Object.prototype\<close> are inherited, and
  \<^verbatim>\<open>constructor\<close>, which is \<^verbatim>\<open>Object\<close>, has its static methods.
\<close>

definition builtin_length :: "string \<Rightarrow> nat" where
  "builtin_length c =
     (if c \<in> set [''toString'', ''valueOf'', ''toLocaleString''] then 0
      else if c \<in> set [''__defineGetter__'', ''__defineSetter__''] then 2
      else 1)"

definition function_prototype_names :: "string list" where
  "function_prototype_names = [''apply'', ''bind'', ''call'', ''constructor'', ''toString'']"

definition object_static_names :: "string list" where
  "object_static_names =
     [''prototype'', ''assign'', ''create'', ''defineProperties'', ''defineProperty'',
      ''entries'', ''freeze'', ''fromEntries'', ''getOwnPropertyDescriptor'',
      ''getOwnPropertyDescriptors'', ''getOwnPropertyNames'', ''getOwnPropertySymbols'',
      ''getPrototypeOf'', ''groupBy'', ''hasOwn'', ''is'', ''isExtensible'', ''isFrozen'',
      ''isSealed'', ''keys'', ''preventExtensions'', ''seal'', ''setPrototypeOf'', ''values'']"

definition ecma_builtin_member :: "string \<Rightarrow> string \<Rightarrow> member" where
  "ecma_builtin_member c n =
     (if c = ''__proto__'' then
        (if n \<in> set object_prototype_names \<and> n \<noteq> ''__proto__'' then Truthy no_fields
         else Falsy)
      else if n = ''caller'' \<or> n = ''arguments'' then Throws ''TypeError''
      else if n = ''length'' then (if builtin_length c = 0 then Falsy else Truthy no_fields)
      else if n = ''name'' \<or> n \<in> set function_prototype_names
              \<or> n \<in> set object_prototype_names then Truthy no_fields
      else if c = ''constructor'' \<and> n \<in> set object_static_names then Truthy no_fields
      else Falsy)"

definition webp_runtime :: runtime where
  "webp_runtime =
     \<lparr>canvas_toDataURL = (\<lambda>t. ''data:image/webp;base64,test''),
      builtin_member = ecma_builtin_member\<rparr>"

definition png_runtime :: runtime where
  "png_runtime =
     \<lparr>canvas_toDataURL = (\<lambda>t. ''data:image/png;base64,test''),
      builtin_member = ecma_builtin_member\<rparr>"

text \<open>The image of the unit.\<close>

definition test_img :: element where
  "test_img =
     \<lparr>classList = [''enhanced-image''],
      img_src = ''images/stock/hero/test-image.png'',
      img_alt = ''Test image for fallback system'',
      img_loading = ''eager'',
      dataset_fallbackLevel = None,
      dataset_fallbackSrc = Some ''images/hero-bg.jpg'',
      dataset_category = Some ''hero'',
      dataset_imageName = Some ''test-image'',
      style_display = [],
      textContent = [],
      error_listeners = 1,
      load_listeners = 1\<rparr>"

definition test_unit :: picture where
  "test_unit =
     \<lparr>pic = createElement
        \<lparr>classList := [''enhanced-picture''],
         dataset_category := Some ''hero'',
         dataset_imageName := Some ''test-image''\<rparr>,
      children =
        [Source \<lparr>srcset = ''images/optimized/hero/test-image.webp'',
                 source_type = ''image/webp'', dataset_format = ''webp''\<rparr>,
         Source \<lparr>srcset = ''images/optimized/hero/test-image.png'',
                 source_type = ''image/png'', dataset_format = ''standard''\<rparr>,
         Img test_img]\<rparr>"

definition test_dom :: dom where
  "test_dom = dom_of test_unit test_img"

text \<open>
  The document of the tests: \<^verbatim>\<open>init\<close> has run \<^verbatim>\<open>setupImageErrorHandling\<close>, and the unit
  is not inserted. The document of a page: \<^verbatim>\<open>init\<close> has run \<^verbatim>\<open>setupImageErrorHandling\<close>
  and then \<^verbatim>\<open>enhanceExistingImages\<close>, which has put the unit in the place of an image of
  the markup; there the chain of the image goes on above the picture, here with one
  element without a class.
\<close>

definition test_document :: document where
  "test_document = setupImageErrorHandling new_document"

definition page_document :: document where
  "page_document = replaceChild (setupImageErrorHandling new_document)"

definition page_dom :: dom where
  "page_dom = test_dom\<lparr>ancestors := ancestors test_dom @ [\<lparr>elem = createElement, others = []\<rparr>]\<rparr>"

text \<open>The fragment of the tests after the handler has run three times.\<close>

definition test_dom_failed :: dom where
  "test_dom_failed =
     \<lparr>target =
        \<lparr>elem = test_img
           \<lparr>classList := [''enhanced-image'', ''fallback-secondary'', ''fallback-tertiary'',
                          ''fallback-final''],
            img_src := ''images/hero-bg.jpg'',
            dataset_fallbackLevel := Some ''3'',
            style_display := ''none''\<rparr>,
         others = []\<rparr>,
      ancestors =
        [\<lparr>elem = createElement
            \<lparr>classList := [''enhanced-picture'', ''image-placeholder'', ''image-failed''],
             dataset_category := Some ''hero'',
             dataset_imageName := Some ''test-image''\<rparr>,
          others =
            [createElement, createElement,
             createElement\<lparr>classList := [''placeholder-content'']\<rparr>,
             createElement\<lparr>classList := [''placeholder-icon''], textContent := ''U+1F3E0''\<rparr>,
             createElement\<lparr>classList := [''placeholder-text''],
                           textContent := ''Professional Plumbing Services''\<rparr>,
             createElement\<lparr>classList := [''error-placeholder'']\<rparr>,
             createElement\<lparr>classList := [''error-icon''], textContent := ''U+26A0 U+FE0F''\<rparr>,
             createElement\<lparr>classList := [''error-text''],
                           textContent := ''Image unavailable''\<rparr>]\<rparr>]\<rparr>"

text \<open>
  An image of the about section whose markup sets no \<^verbatim>\<open>data-fallback-src\<close>, inside a
  \<^verbatim>\<open>.team-member\<close> element.
\<close>

definition about_dom :: dom where
  "about_dom =
     \<lparr>target = \<lparr>elem = createElement\<lparr>img_src := ''images/stock/about/team-photo.jpg''\<rparr>,
                 others = []\<rparr>,
      ancestors = [\<lparr>elem = createElement\<lparr>classList := [''team-member'']\<rparr>, others = []\<rparr>]\<rparr>"


section \<open>Lemmas\<close>

subsection \<open>The Stats Recorder\<close>

lemma stats_inv_constructor: "stats_inv constructor"
  by (simp add: stats_inv_def getFallbackStats_def constructor_def)

lemma stats_inv_reset: "stats_inv (resetFallbackStats m)"
  by (simp add: stats_inv_def getFallbackStats_def resetFallbackStats_def)

lemma stats_inv_track:
  assumes "stats_inv m"
  shows "stats_inv (trackFallbackUsage m c n l)"
  using assms
  by (auto simp: stats_inv_def getFallbackStats_def trackFallbackUsage_def Let_def
           split: option.splits if_splits)

lemma stats_inv_step: "stats_inv m \<Longrightarrow> stats_inv (stats_step m x)"
  by (cases x) (simp_all add: stats_inv_track stats_inv_reset)

lemma stats_inv_run: "stats_inv m \<Longrightarrow> stats_inv (stats_run m ops)"
  unfolding stats_run_def
  by (induction ops arbitrary: m) (simp_all add: stats_inv_step)

lemma track_entry:
  "getFallbackStats (trackFallbackUsage m c n l) (stats_key c n) =
     Some \<lparr>levels = levels (entry_before m (stats_key c n)) @ [l],
           count = count (entry_before m (stats_key c n)) + 1\<rparr>"
  by (simp add: getFallbackStats_def trackFallbackUsage_def entry_before_def Let_def
           split: option.splits)

lemma track_other:
  "key \<noteq> stats_key c n \<Longrightarrow>
     getFallbackStats (trackFallbackUsage m c n l) key = getFallbackStats m key"
  by (simp add: getFallbackStats_def trackFallbackUsage_def Let_def split: option.splits)

subsection \<open>The image, its chain and the handlers\<close>

subsection \<open>Evaluation\<close>

lemmas js_defs = or_else_def truthy_def to_string_def parseInt_def is_digit_def digit_val_def
  is_space_def replace_hyphens_def indexOf_is_0_def

lemmas dom_defs = classList_add_def classList_remove_def classList_contains_def createElement_def
  path_def img_def matches_def closest_def upd_node_def upd_elem_def upd_img_def descendants_def
  querySelector_found_def appendChild_def is_ascii_whitespace_def class_tokens_def

lemmas fsm_defs = fallbackLevel_of_def container_selector_def getPlaceholderIcon_def
  getPlaceholderText_def createPlaceholderContent_def createErrorPlaceholder_def
  attemptTertiaryFallback_def attemptSecondaryFallback_def handleFinalFallback_def
  handleEnhancedImageError_def handleImageLoad_def process_all_def

lemma parseInt_level:
  "parseInt ''0'' = Num 0" "parseInt ''1'' = Num 1" "parseInt ''2'' = Num 2"
  "parseInt ''3'' = Num 3"
  by (simp_all add: parseInt_def is_digit_def digit_val_def is_space_def)

subsection \<open>The chain of an image\<close>

lemma dom_eq_path: "path d = path d' \<Longrightarrow> d = (d' :: dom)"
  by (cases d, cases d') (simp add: path_def)

lemma path_upd_node: "path (upd_node i f d) = (path d)[i := f (path d ! i)]"
  by (cases i) (simp_all add: upd_node_def path_def)

lemma path_upd_elem:
  "path (upd_elem i g d) = (path d)[i := (path d ! i)\<lparr>elem := g (elem (path d ! i))\<rparr>]"
  by (simp add: upd_elem_def path_upd_node)

lemma path_appendChild:
  "path (appendChild i es d) = (path d)[i := (path d ! i)\<lparr>others := others (path d ! i) @ es\<rparr>]"
  by (simp add: appendChild_def path_upd_node)

lemma img_path: "img d = elem (path d ! 0)"
  by (simp add: img_def path_def)

lemma img_upd_elem: "img (upd_elem i g d) = (if i = 0 then g (img d) else img d)"
  by (cases i) (simp_all add: upd_elem_def upd_node_def img_def)

lemma img_upd_img: "img (upd_img g d) = g (img d)"
  by (simp add: upd_img_def img_upd_elem)

lemma img_appendChild: "img (appendChild i es d) = img d"
  by (cases i) (simp_all add: appendChild_def upd_node_def img_def)

lemma img_createPlaceholderContent: "img (createPlaceholderContent c cat d) = img d"
  by (simp add: createPlaceholderContent_def img_appendChild)

lemma img_createErrorPlaceholder: "img (createErrorPlaceholder c cat d) = img d"
  by (simp add: createErrorPlaceholder_def img_appendChild)

lemma upd_elem_id:
  assumes "g (elem (path d ! i)) = elem (path d ! i)"
  shows "upd_elem i g d = d"
  by (rule dom_eq_path) (simp add: path_upd_elem assms)

lemma upd_img_id: "g (img d) = img d \<Longrightarrow> upd_img g d = d"
  unfolding upd_img_def by (rule upd_elem_id) (simp add: img_path)

lemma length_path_upd_elem: "length (path (upd_elem i g d)) = length (path d)"
  by (simp add: path_upd_elem)

lemma elem_path_upd_elem:
  "i < length (path d) \<Longrightarrow> elem (path (upd_elem i g d) ! i) = g (elem (path d ! i))"
  by (simp add: path_upd_elem)

lemma elem_path_appendChild: "elem (path (appendChild i es d) ! j) = elem (path d ! j)"
  by (cases "i < length (path d)"; cases "i = j")
     (simp_all add: path_appendChild list_update_beyond)

lemma elem_path_createErrorPlaceholder:
  "elem (path (createErrorPlaceholder c cat d) ! j) = elem (path d ! j)"
  by (simp add: createErrorPlaceholder_def elem_path_appendChild)

lemma descendants_appendChild:
  assumes "c < length (path d)"
  shows "descendants c (appendChild c es d) = descendants c d @ es"
proof -
  let ?p = "path d"
  have "take (Suc c) (?p[c := x]) = take c ?p @ [x]" for x
    using assms by (simp add: take_Suc_conv_app_nth)
  moreover have "take (Suc c) ?p = take c ?p @ [?p ! c]"
    using assms by (simp add: take_Suc_conv_app_nth)
  ultimately show ?thesis
    by (simp add: descendants_def path_appendChild)
qed

subsection \<open>Class lists and selectors\<close>

lemma classList_add_fields:
  "img_src (classList_add c e) = img_src e"
  "dataset_fallbackLevel (classList_add c e) = dataset_fallbackLevel e"
  "dataset_fallbackSrc (classList_add c e) = dataset_fallbackSrc e"
  "dataset_category (classList_add c e) = dataset_category e"
  "dataset_imageName (classList_add c e) = dataset_imageName e"
  "style_display (classList_add c e) = style_display e"
  by (simp_all add: classList_add_def)

lemma classList_remove_fields:
  "img_src (classList_remove c e) = img_src e"
  "dataset_fallbackLevel (classList_remove c e) = dataset_fallbackLevel e"
  "dataset_fallbackSrc (classList_remove c e) = dataset_fallbackSrc e"
  "dataset_category (classList_remove c e) = dataset_category e"
  "dataset_imageName (classList_remove c e) = dataset_imageName e"
  "style_display (classList_remove c e) = style_display e"
  by (simp_all add: classList_remove_def)

lemma contains_classList_add:
  "classList_contains x (classList_add c e) = (x = c \<or> classList_contains x e)"
  by (auto simp: classList_contains_def classList_add_def)

lemma contains_classList_remove:
  "classList_contains x (classList_remove c e) = (x \<noteq> c \<and> classList_contains x e)"
  by (auto simp: classList_contains_def classList_remove_def)

lemma classList_add_id: "classList_contains c e \<Longrightarrow> classList_add c e = e"
  by (simp add: classList_contains_def classList_add_def)

lemma element_update_id:
  "dataset_fallbackLevel e = l \<Longrightarrow> style_display e = s \<Longrightarrow>
     e\<lparr>dataset_fallbackLevel := l, style_display := s\<rparr> = e"
  by (cases e) simp

text \<open>A tag that is not a class of the selector does not change what the selector matches.\<close>

lemma matches_container_add:
  assumes "c \<notin> {''image-container'', ''service-card'', ''hero-image'', ''about-image'',
                 ''enhanced-picture''}"
  shows "matches container_selector (classList_add c e) = matches container_selector e"
  using assms by (auto simp: matches_def container_selector_def contains_classList_add)

lemma matches_container_remove:
  assumes "c \<notin> {''image-container'', ''service-card'', ''hero-image'', ''about-image'',
                 ''enhanced-picture''}"
  shows "matches container_selector (classList_remove c e) = matches container_selector e"
  using assms by (auto simp: matches_def container_selector_def contains_classList_remove)

lemma find_index_Some: "find_index P xs = Some i \<Longrightarrow> i < length xs \<and> P (xs ! i)"
proof (induction xs arbitrary: i)
  case Nil
  then show ?case by simp
next
  case (Cons x xs)
  then show ?case by (cases i) (auto split: if_splits)
qed

lemma find_index_update:
  "(i < length xs \<Longrightarrow> P y = P (xs ! i)) \<Longrightarrow> find_index P (xs[i := y]) = find_index P xs"
proof (induction xs arbitrary: i)
  case Nil
  then show ?case by simp
next
  case (Cons x xs)
  then show ?case by (cases i) auto
qed

lemma closest_bound: "closest sel d = Some c \<Longrightarrow> c < length (path d)"
  by (auto simp: closest_def dest: find_index_Some)

lemma closest_upd_elem:
  assumes "matches sel (g (elem (path d ! i))) = matches sel (elem (path d ! i))"
  shows "closest sel (upd_elem i g d) = closest sel d"
  unfolding closest_def path_upd_elem
  by (rule find_index_update) (simp add: assms)

lemma closest_upd_img:
  assumes "matches sel (g (img d)) = matches sel (img d)"
  shows "closest sel (upd_img g d) = closest sel d"
  unfolding upd_img_def using assms by (intro closest_upd_elem) (simp add: img_path)

lemma closest_appendChild: "closest sel (appendChild i es d) = closest sel d"
  unfolding closest_def path_appendChild
  by (rule find_index_update) simp

lemma closest_createErrorPlaceholder:
  "closest sel (createErrorPlaceholder c cat d) = closest sel d"
  by (simp add: createErrorPlaceholder_def closest_appendChild)

subsection \<open>The level that a handler leaves\<close>

lemma level_attemptTertiaryFallback:
  "dataset_fallbackLevel (img (attemptTertiaryFallback d)) = Some ''2''"
  by (simp add: attemptTertiaryFallback_def Let_def img_createPlaceholderContent img_upd_elem
        img_upd_img classList_add_fields split: option.splits)

lemma level_handleFinalFallback:
  "dataset_fallbackLevel (img (handleFinalFallback d)) = Some ''3''"
  by (simp add: handleFinalFallback_def Let_def img_createErrorPlaceholder img_upd_elem
        img_upd_img classList_add_fields split: option.splits)

lemma level_attemptSecondaryFallback:
  "dataset_fallbackLevel (img (attemptSecondaryFallback d)) =
     (if truthy (dataset_fallbackSrc (img d))
         \<and> to_string (dataset_fallbackSrc (img d)) \<noteq> img_src (img d)
      then Some ''1'' else Some ''2'')"
  by (simp add: attemptSecondaryFallback_def Let_def level_attemptTertiaryFallback
        img_upd_img classList_add_fields)

lemma level_handleEnhancedImageError:
  "fallbackLevel_of (snd (handleEnhancedImageError m d)) = next_level d"
  by (simp add: handleEnhancedImageError_def Let_def fallbackLevel_of_def next_level_def
        level_attemptSecondaryFallback level_attemptTertiaryFallback level_handleFinalFallback
        or_else_def parseInt_level)

lemma snd_handleEnhancedImageError_default:
  assumes "fallbackLevel_of d \<noteq> Num 0" "fallbackLevel_of d \<noteq> Num 1"
  shows "snd (handleEnhancedImageError m d) = handleFinalFallback d"
  using assms by (simp add: handleEnhancedImageError_def fallbackLevel_of_def Let_def)

lemma level_handleImageLoad:
  "dataset_fallbackLevel (img (handleImageLoad d)) = dataset_fallbackLevel (img d)"
  by (simp add: handleImageLoad_def Let_def img_upd_elem img_upd_img classList_add_fields
        classList_remove_fields split: option.splits)

lemma next_level_cases:
  "fallbackLevel_of d \<noteq> Num 0 \<Longrightarrow>
     next_level d = (if fallbackLevel_of d = Num 1 then Num 2 else Num 3)"
  by (simp add: next_level_def)

lemma next_level_range:
  assumes "fallbackLevel_of d = Num a" "0 \<le> a" "a \<le> 3"
  shows "\<exists>b. next_level d = Num b \<and> a \<le> b \<and> b \<le> 3"
  using assms by (auto simp: next_level_def)

lemma next_level_raises:
  assumes "fallbackLevel_of d = Num n" "0 \<le> n" "n < 3"
  shows "\<exists>n'. next_level d = Num n' \<and> n < n' \<and> n' \<le> 3"
  using assms by (auto simp: next_level_def)

subsection \<open>Calls of the handler and sequences of events\<close>

lemma calls_0: "calls 0 s = s"
  by (simp add: calls_def)

lemma calls_Suc: "calls (Suc k) s = handleEnhancedImageError (fst (calls k s)) (snd (calls k s))"
  by (simp add: calls_def)

lemma level_calls_Suc: "fallbackLevel_of (snd (calls (Suc k) s)) = next_level (snd (calls k s))"
  by (simp add: calls_Suc level_handleEnhancedImageError)

text \<open>Within 0 to 3 the level only grows, by induction on the number of calls.\<close>

lemma level_calls_range:
  assumes "fallbackLevel_of (snd s) = Num a" "0 \<le> a" "a \<le> 3"
  shows "\<exists>b. fallbackLevel_of (snd (calls k s)) = Num b \<and> a \<le> b \<and> b \<le> 3"
proof (induction k)
  case 0
  then show ?case using assms by (simp add: calls_0)
next
  case (Suc k)
  then obtain b where b: "fallbackLevel_of (snd (calls k s)) = Num b" "a \<le> b" "b \<le> 3"
    by blast
  from next_level_range [OF b(1) _ b(3)] b(2) assms(2)
  obtain c where "next_level (snd (calls k s)) = Num c" "b \<le> c" "c \<le> 3" by auto
  with b show ?case by (auto simp: level_calls_Suc)
qed

text \<open>From Primary with a distinct alternate source: one level for each call, up to 3.\<close>

lemma level_calls_chain:
  assumes "fallbackLevel_of (snd s) = Num 0"
    and "truthy (dataset_fallbackSrc (img (snd s)))"
    and "to_string (dataset_fallbackSrc (img (snd s))) \<noteq> img_src (img (snd s))"
  shows "fallbackLevel_of (snd (calls k s)) = Num (min (int k) 3)"
proof (induction k)
  case 0
  then show ?case using assms by (simp add: calls_0)
next
  case (Suc k)
  show ?case
  proof (cases k)
    case 0
    then show ?thesis using assms
      by (simp add: level_calls_Suc calls_0 next_level_def)
  next
    case (Suc k')
    with Suc.IH have "fallbackLevel_of (snd (calls k s)) = Num (min (int k) 3)"
      by simp
    moreover have "min (int k) 3 \<noteq> 0" using Suc by simp
    ultimately
    have "next_level (snd (calls k s)) = (if min (int k) 3 = 1 then Num 2 else Num 3)"
      using next_level_cases [of "snd (calls k s)"] by simp
    then show ?thesis using Suc
      by (auto simp: level_calls_Suc min_def)
  qed
qed

lemma level_loads: "fallbackLevel_of ((handleImageLoad ^^ k) d) = fallbackLevel_of d"
  by (induction k) (simp_all add: fallbackLevel_of_def level_handleImageLoad)

text \<open>
  One \<^verbatim>\<open>error\<close> event is as many calls of the handler as it meets listeners: those of the
  document, when the image is in it, and those of the image.
\<close>

lemma process_Failure:
  "process doc s Failure =
     calls ((if contains_image doc then capture_error_listeners doc else 0)
            + error_listeners (img (snd s))) s"
proof -
  let ?h = "\<lambda>s. handleEnhancedImageError (fst s) (snd s)"
  have "(\<lambda>s. handleImageError (fst s) (snd s)) = ?h"
    by (simp add: handleImageError_def)
  then have "process doc s Failure =
      (?h ^^ error_listeners (img (snd s)))
        ((?h ^^ (if contains_image doc then capture_error_listeners doc else 0)) s)"
    by (simp add: Let_def)
  then show ?thesis
    by (simp add: calls_def funpow_add add.commute)
qed

lemma level_process_range:
  assumes "fallbackLevel_of (snd s) = Num a" "0 \<le> a" "a \<le> 3"
  shows "\<exists>b. fallbackLevel_of (snd (process doc s ev)) = Num b \<and> a \<le> b \<and> b \<le> 3"
proof (cases ev)
  case Failure
  then show ?thesis
    using level_calls_range [OF assms] by (simp only: process_Failure)
next
  case Success
  then show ?thesis using assms by (simp add: level_loads)
qed

lemma level_process_all_range:
  assumes "fallbackLevel_of (snd s) = Num a" "0 \<le> a" "a \<le> 3"
  shows "\<exists>b. fallbackLevel_of (snd (process_all doc s evs)) = Num b \<and> a \<le> b \<and> b \<le> 3"
  using assms
proof (induction evs arbitrary: s a)
  case Nil
  then show ?case by (simp add: process_all_def)
next
  case (Cons ev evs)
  from level_process_range [OF Cons.prems, of doc ev]
  obtain b where b: "fallbackLevel_of (snd (process doc s ev)) = Num b" "a \<le> b" "b \<le> 3"
    by blast
  from Cons.IH [OF b(1) _ b(3)] b(2) Cons.prems(2)
  obtain c where "fallbackLevel_of (snd (process_all doc (process doc s ev) evs)) = Num c"
    "b \<le> c" "c \<le> 3" by auto
  with b show ?case by (auto simp: process_all_def)
qed

lemma level3_absorbing:
  assumes "fallbackLevel_of (snd s) = Num 3"
  shows "fallbackLevel_of (snd (process_all doc s evs)) = Num 3"
  using level_process_all_range [OF assms, of doc evs] by auto

lemma process_all_append:
  "process_all doc s (evs @ evs') = process_all doc (process_all doc s evs) evs'"
  by (simp add: process_all_def)

text \<open>Over a sequence of events the level never decreases, whatever the listeners are.\<close>

lemma level_never_decreases:
  assumes "fallbackLevel_of (snd s) = Num a" "0 \<le> a" "a \<le> 3"
  shows "\<exists>b c. fallbackLevel_of (snd (process_all doc s evs)) = Num b
     \<and> fallbackLevel_of (snd (process_all doc s (evs @ evs'))) = Num c
     \<and> a \<le> b \<and> b \<le> c \<and> c \<le> 3"
proof -
  from level_process_all_range [OF assms, of doc evs]
  obtain b where b: "fallbackLevel_of (snd (process_all doc s evs)) = Num b" "a \<le> b" "b \<le> 3"
    by blast
  from level_process_all_range [OF b(1) _ b(3), of doc evs'] b(2) assms(2)
  obtain c where "fallbackLevel_of (snd (process_all doc (process_all doc s evs) evs')) = Num c"
    "b \<le> c" "c \<le> 3" by auto
  with b show ?thesis by (auto simp: process_all_append)
qed

text \<open>
  An \<^verbatim>\<open>error\<close> event that meets one listener moves an image at level 0 with a distinct
  alternate source to level 1; one that meets the listener of the document and the
  listener of the image moves it to level 2.
\<close>

lemma level_error_event:
  assumes "fallbackLevel_of d = Num 0"
    and "truthy (dataset_fallbackSrc (img d))"
    and "to_string (dataset_fallbackSrc (img d)) \<noteq> img_src (img d)"
    and "error_listeners (img d) = 1"
  shows "\<not> contains_image doc \<Longrightarrow> fallbackLevel_of (snd (process doc (m, d) Failure)) = Num 1"
    and "contains_image doc \<Longrightarrow> capture_error_listeners doc = 1 \<Longrightarrow>
           fallbackLevel_of (snd (process doc (m, d) Failure)) = Num 2"
proof -
  have c: "fallbackLevel_of (snd (calls k (m, d))) = Num (min (int k) 3)" for k
    using assms(1-3) by (intro level_calls_chain) simp_all
  show "fallbackLevel_of (snd (process doc (m, d) Failure)) = Num 1" if "\<not> contains_image doc"
    using that assms(4) c [of "Suc 0"] by (simp only: process_Failure) simp
  show "fallbackLevel_of (snd (process doc (m, d) Failure)) = Num 2"
    if "contains_image doc" "capture_error_listeners doc = 1"
    using that assms(4) c [of "Suc (Suc 0)"] by (simp only: process_Failure) simp
qed

subsection \<open>The presentation of a failed image\<close>

text \<open>On an image that has the presentation, \<^verbatim>\<open>handleFinalFallback\<close> changes nothing.\<close>

lemma handleFinalFallback_id:
  assumes "failed_presentation d"
  shows "handleFinalFallback d = d"
proof -
  let ?g = "\<lambda>e. classList_add ''fallback-final''
                (e\<lparr>dataset_fallbackLevel := Some ''3'', style_display := ''none''\<rparr>)"
  from assms have "?g (img d) = img d"
    by (simp add: failed_presentation_def element_update_id classList_add_id)
  then have d1: "upd_img ?g d = d" by (rule upd_img_id)
  show ?thesis
  proof (cases "closest container_selector d")
    case None
    then show ?thesis by (simp add: handleFinalFallback_def Let_def d1)
  next
    case (Some c)
    with assms have c: "classList_contains ''image-failed'' (elem (path d ! c))"
      and q: "querySelector_found ''error-placeholder'' c d"
      by (simp_all add: failed_presentation_def)
    from c have "upd_elem c (classList_add ''image-failed'') d = d"
      by (intro upd_elem_id classList_add_id)
    with q Some show ?thesis
      by (simp add: handleFinalFallback_def Let_def d1 createErrorPlaceholder_def)
  qed
qed

lemma found_createErrorPlaceholder:
  assumes "c < length (path d)"
  shows "querySelector_found ''error-placeholder'' c (createErrorPlaceholder c cat d)"
proof (cases "querySelector_found ''error-placeholder'' c d")
  case True
  then show ?thesis by (simp add: createErrorPlaceholder_def)
next
  case False
  then show ?thesis
    by (simp add: createErrorPlaceholder_def querySelector_found_def
          descendants_appendChild [OF assms] classList_contains_def createElement_def)
qed

text \<open>\<^verbatim>\<open>handleFinalFallback\<close> gives every image the presentation.\<close>

lemma handleFinalFallback_presentation: "failed_presentation (handleFinalFallback d)"
proof -
  let ?g = "\<lambda>e. classList_add ''fallback-final''
                (e\<lparr>dataset_fallbackLevel := Some ''3'', style_display := ''none''\<rparr>)"
  let ?d1 = "upd_img ?g d"
  have i1: "dataset_fallbackLevel (img ?d1) = Some ''3''" "style_display (img ?d1) = ''none''"
    "classList_contains ''fallback-final'' (img ?d1)"
    by (simp_all add: img_upd_img classList_add_fields contains_classList_add)
  show ?thesis
  proof (cases "closest container_selector ?d1")
    case None
    then show ?thesis using i1
      by (simp add: handleFinalFallback_def Let_def failed_presentation_def)
  next
    case (Some c)
    let ?d2 = "upd_elem c (classList_add ''image-failed'') ?d1"
    let ?d3 = "createErrorPlaceholder c (dataset_category (img ?d1)) ?d2"
    have h: "handleFinalFallback d = ?d3"
      using Some by (simp add: handleFinalFallback_def Let_def)
    from Some have c1: "c < length (path ?d1)" by (rule closest_bound)
    then have c2: "c < length (path ?d2)" by (simp add: length_path_upd_elem)
    have "closest container_selector ?d2 = Some c"
      using Some by (simp add: closest_upd_elem matches_container_add)
    then have cl: "closest container_selector ?d3 = Some c"
      by (simp add: closest_createErrorPlaceholder)
    have "img ?d3 = (if c = 0 then classList_add ''image-failed'' (img ?d1) else img ?d1)"
      by (simp add: img_createErrorPlaceholder img_upd_elem)
    with i1 have i3: "dataset_fallbackLevel (img ?d3) = Some ''3''"
      "style_display (img ?d3) = ''none''" "classList_contains ''fallback-final'' (img ?d3)"
      by (simp_all add: classList_add_fields contains_classList_add)
    have "elem (path ?d3 ! c) = classList_add ''image-failed'' (elem (path ?d1 ! c))"
      using c1 by (simp add: elem_path_createErrorPlaceholder elem_path_upd_elem)
    then have m: "classList_contains ''image-failed'' (elem (path ?d3 ! c))"
      by (simp add: contains_classList_add)
    have q: "querySelector_found ''error-placeholder'' c ?d3"
      using c2 by (rule found_createErrorPlaceholder)
    show ?thesis
      unfolding h failed_presentation_def using i3 cl m q by simp
  qed
qed

lemma handleFinalFallback_idem:
  "handleFinalFallback (handleFinalFallback d) = handleFinalFallback d"
  by (rule handleFinalFallback_id [OF handleFinalFallback_presentation])

text \<open>
  An image in that presentation stays as it is under any number of calls of the handler,
  so under an \<^verbatim>\<open>error\<close> event whatever the listeners are.
\<close>

lemma failed_presentation_calls:
  assumes "failed_presentation d"
  shows "snd (calls k (m, d)) = d"
proof (induction k)
  case 0
  then show ?case by (simp add: calls_0)
next
  case (Suc k)
  from assms have "fallbackLevel_of d = Num 3"
    by (simp add: failed_presentation_def fallbackLevel_of_def or_else_def parseInt_level)
  then have "snd (handleEnhancedImageError (fst (calls k (m, d))) d) = handleFinalFallback d"
    by (intro snd_handleEnhancedImageError_default) simp_all
  with Suc assms show ?case
    by (simp add: calls_Suc handleFinalFallback_id)
qed

lemma failed_presentation_event:
  assumes "failed_presentation d"
  shows "snd (process doc (m, d) Failure) = d"
  using failed_presentation_calls [OF assms] by (simp only: process_Failure)

subsection \<open>The success handler\<close>

lemma closest_handleImageLoad_img:
  "closest container_selector
     (upd_img (\<lambda>e. classList_remove ''loading'' (classList_add ''loaded'' e)) d)
   = closest container_selector d"
  by (rule closest_upd_img) (simp add: matches_container_remove matches_container_add)

lemma handleImageLoad_props:
  fixes d
  defines "d' \<equiv> handleImageLoad d"
  shows "classList_contains ''loaded'' (img d')"
    and "\<not> classList_contains ''loading'' (img d')"
    and "closest container_selector d = Some c \<Longrightarrow>
           \<not> classList_contains ''image-placeholder'' (elem (path d' ! c))
           \<and> \<not> classList_contains ''image-failed'' (elem (path d' ! c))"
    and "dataset_fallbackLevel (img d') = dataset_fallbackLevel (img d)"
    and "style_display (img d') = style_display (img d)"
    and "x \<notin> {''loaded'', ''loading'', ''image-placeholder'', ''image-failed''} \<Longrightarrow>
           classList_contains x (img d') = classList_contains x (img d)"
proof -
  let ?g = "\<lambda>e. classList_remove ''loading'' (classList_add ''loaded'' e)"
  let ?h = "\<lambda>e. classList_remove ''image-failed'' (classList_remove ''image-placeholder'' e)"
  let ?d1 = "upd_img ?g d"
  have cl: "closest container_selector ?d1 = closest container_selector d"
    by (rule closest_handleImageLoad_img)
  have d': "d' = (case closest container_selector d of
                    None \<Rightarrow> ?d1 | Some c \<Rightarrow> upd_elem c ?h ?d1)"
    by (simp add: d'_def handleImageLoad_def Let_def cl)
  have i: "img d' = (case closest container_selector d of
                       None \<Rightarrow> ?g (img d)
                     | Some c \<Rightarrow> if c = 0 then ?h (?g (img d)) else ?g (img d))"
    by (simp add: d' img_upd_elem img_upd_img split: option.splits)
  show "classList_contains ''loaded'' (img d')"
    by (simp add: i contains_classList_add contains_classList_remove split: option.splits)
  show "\<not> classList_contains ''loading'' (img d')"
    by (simp add: i contains_classList_add contains_classList_remove split: option.splits)
  show "dataset_fallbackLevel (img d') = dataset_fallbackLevel (img d)"
    by (simp add: i classList_add_fields classList_remove_fields split: option.splits)
  show "style_display (img d') = style_display (img d)"
    by (simp add: i classList_add_fields classList_remove_fields split: option.splits)
  show "classList_contains x (img d') = classList_contains x (img d)"
    if "x \<notin> {''loaded'', ''loading'', ''image-placeholder'', ''image-failed''}"
    using that
    by (auto simp: i contains_classList_add contains_classList_remove split: option.splits)
  show "\<not> classList_contains ''image-placeholder'' (elem (path d' ! c))
           \<and> \<not> classList_contains ''image-failed'' (elem (path d' ! c))"
    if c: "closest container_selector d = Some c"
  proof -
    from c cl have "c < length (path ?d1)" by (simp add: closest_bound)
    then have "elem (path d' ! c) = ?h (elem (path ?d1 ! c))"
      by (simp add: d' c elem_path_upd_elem)
    then show ?thesis by (simp add: contains_classList_remove)
  qed
qed

subsection \<open>The handler of the about section\<close>

text \<open>
  At level 0 without a distinct alternate source the handler calls itself on the same
  image, so no invocation returns: by the induction rule of the least fixed point, an
  invocation that returns is not at such an image.
\<close>

lemma handleAboutImageError_Some:
  assumes "handleAboutImageError w d = Some y"
  shows "\<not> (fallbackLevel_of d = Num 0 \<and>
            \<not> (truthy (dataset_fallbackSrc (img d))
                 \<and> to_string (dataset_fallbackSrc (img d)) \<noteq> img_src (img d)))"
proof (rule handleAboutImageError.raw_induct
    [where P = "\<lambda>w d y. \<not> (fallbackLevel_of d = Num 0 \<and>
            \<not> (truthy (dataset_fallbackSrc (img d))
                 \<and> to_string (dataset_fallbackSrc (img d)) \<noteq> img_src (img d)))",
     OF _ assms], goal_cases)
  case (1 f w d y)
  show ?case
  proof
    assume l: "fallbackLevel_of d = Num 0 \<and>
            \<not> (truthy (dataset_fallbackSrc (img d))
                 \<and> to_string (dataset_fallbackSrc (img d)) \<noteq> img_src (img d))"
    with 1(2) obtain s where "f w d = Some s"
      by (auto simp: Let_def fallbackLevel_of_def split: bind_splits)
    from 1(1) [OF this] l show False by simp
  qed
qed

lemma handleAboutImageError_diverges:
  assumes "fallbackLevel_of d = Num 0"
    and "\<not> (truthy (dataset_fallbackSrc (img d))
             \<and> to_string (dataset_fallbackSrc (img d)) \<noteq> img_src (img d))"
  shows "handleAboutImageError w d = None"
proof (cases "handleAboutImageError w d")
  case None
  then show ?thesis .
next
  case (Some y)
  from handleAboutImageError_Some [OF this] assms show ?thesis by simp
qed

text \<open>Everywhere else it returns.\<close>

lemma handleAboutImageError_returns:
  assumes "\<not> (fallbackLevel_of d = Num 0 \<and>
              \<not> (truthy (dataset_fallbackSrc (img d))
                   \<and> to_string (dataset_fallbackSrc (img d)) \<noteq> img_src (img d)))"
  shows "\<exists>y. handleAboutImageError w d = Some y"
  using assms
  by (subst handleAboutImageError.simps) (auto simp: Let_def fallbackLevel_of_def)

subsection \<open>The builder and the metadata\<close>

lemma generateAltText_table:
  "generateAltText ''hero'' n = ''Professional plumbing services Milwaukee - '' @ replace_hyphens n"
  "generateAltText ''services'' n = replace_hyphens n @ '' - Radius Works Milwaukee plumbing services''"
  "generateAltText ''about'' n = ''Radius Works team - '' @ replace_hyphens n"
  "generateAltText ''reviews'' n = ''Customer satisfaction - '' @ replace_hyphens n"
  by (simp_all add: generateAltText_def or_else_def)

lemma getFallbackImage_table:
  "getFallbackImage ''hero'' = ''images/hero-bg.jpg''"
  "getFallbackImage ''services'' = ''images/residential-service.jpg''"
  "getFallbackImage ''about'' = ''images/radius-logo2.png''"
  "getFallbackImage ''reviews'' = ''images/hero-bg.jpg''"
  by (simp_all add: getFallbackImage_def or_else_def)

lemma category_phrase_table:
  "category_phrase ''hero'' = ''Professional plumbing services Milwaukee''"
  "category_phrase ''services'' = ''Radius Works Milwaukee plumbing services''"
  "category_phrase ''about'' = ''Radius Works team''"
  "category_phrase ''reviews'' = ''Customer satisfaction''"
  by (simp_all add: category_phrase_def)

text \<open>When the lookup answers nothing, and when it answers an inherited name.\<close>

lemma lookup_imageData_absent:
  assumes "own_record m category imageName = None"
    and "category \<notin> set object_prototype_names"
    and "imageName \<notin> set object_prototype_names"
  shows "lookup_imageData rt m category imageName = Inr None"
  using assms
  by (auto simp: lookup_imageData_def own_record_def split: option.splits)

lemma lookup_imageData_own:
  "own_record m category imageName = Some r \<Longrightarrow>
     lookup_imageData rt m category imageName = Inr (Some r)"
  by (auto simp: lookup_imageData_def own_record_def split: option.splits)

lemma lookup_imageData_inherited:
  assumes "imageMetadata m = Some md" "categories md category = Some c" "c imageName = None"
    and "imageName \<in> set object_prototype_names"
  shows "lookup_imageData rt m category imageName = Inr (Some no_fields)"
  using assms by (simp add: lookup_imageData_def)

lemma category_not_inherited:
  "category \<in> {''hero'', ''services'', ''about'', ''reviews''} \<Longrightarrow>
     category \<notin> set object_prototype_names"
  by (auto simp: object_prototype_names_def)

lemma createPictureElement_absent:
  assumes "lookup_imageData rt m category imageName = Inr None"
  shows "\<exists>p e. createPictureElement rt m category imageName className opts = Inr p
     \<and> children p = [Img e]
     \<and> img_src e = getFallbackImage category \<and> img_alt e = generateAltText category imageName"
  using assms by (simp add: createPictureElement_def createFallbackPictureElement_def)

lemma createPictureElement_children:
  assumes "lookup_imageData rt m category imageName = Inr (Some r)"
  shows "\<exists>p e. createPictureElement rt m category imageName className opts = Inr p
     \<and> children p =
     (if truthy (webp r) \<and> checkWebPSupport rt
      then [Source \<lparr>srcset = to_string (webp r), source_type = ''image/webp'',
                    dataset_format = ''webp''\<rparr>] else [])
     @ map Source
        (if truthy (optimized r)
         then [\<lparr>srcset = to_string (optimized r),
                source_type = getImageMimeType (to_string (optimized r)),
                dataset_format = ''standard''\<rparr>] else [])
     @ [Img e]"
  using assms by (simp add: createPictureElement_def)

lemma candidates_append: "candidates (xs @ ys) = candidates xs @ candidates ys"
  by (induction xs rule: candidates.induct) simp_all

lemma candidates_map_Source: "candidates (map Source ss) = ss"
  by (induction ss) simp_all


lemma loadImageMetadata_returns: "\<exists>out m'. loadImageMetadata fetched m = Inr (out, m')"
  by (cases "loadImageMetadata_try fetched m")
     (auto simp: loadImageMetadata_def)

lemma loadImageMetadata_cannot_load:
  assumes "cannot_load fetched"
  shows "loadImageMetadata fetched m =
       Inr ([Warn ''Could not load image metadata, using fallback system''],
            m\<lparr>imageMetadata := Some createFallbackMetadata\<rparr>)"
proof (cases fetched)
  case (Rejected e)
  then show ?thesis by (simp add: loadImageMetadata_def loadImageMetadata_try_def)
next
  case (Fulfilled resp)
  with assms obtain e where "json resp = Rejected e"
    by (cases "json resp") (simp_all add: cannot_load_def)
  with Fulfilled show ?thesis by (simp add: loadImageMetadata_def loadImageMetadata_try_def)
qed

lemma createFallbackMetadata_categories:
  "categories createFallbackMetadata c =
     (if c \<in> {''hero'', ''services'', ''about'', ''reviews''} then Some Map.empty else None)"
  by (simp add: createFallbackMetadata_def)

subsection \<open>The test unit\<close>

lemma test_lookup:
  "lookup_imageData rt test_manager ''hero'' ''test-image'' = Inr (Some test_record)"
  by (simp add: lookup_imageData_def test_manager_def test_metadata_def constructor_def)

lemma checkWebPSupport_webp_runtime: "checkWebPSupport webp_runtime"
  by (simp add: checkWebPSupport_def webp_runtime_def indexOf_is_0_def)

lemma checkWebPSupport_png_runtime: "\<not> checkWebPSupport png_runtime"
  by (simp add: checkWebPSupport_def png_runtime_def indexOf_is_0_def)

lemma getImageMimeType_test:
  "getImageMimeType ''images/optimized/hero/test-image.png'' = ''image/png''"
  by code_simp

text \<open>The builder gives the unit, with the listeners on its image.\<close>

lemma test_unit_built:
  "createPictureElement webp_runtime test_manager ''hero'' ''test-image'' [] \<lparr>eager = False\<rparr>
     = Inr test_unit"
  by (simp add: createPictureElement_def test_lookup checkWebPSupport_webp_runtime
        test_unit_def test_record_def test_img_def truthy_def to_string_def or_else_def
        getFallbackImage_def getImageMimeType_test createElement_def class_tokens_def
        is_ascii_whitespace_def)

lemma test_dom_eq:
  "test_dom =
    \<lparr>target = \<lparr>elem = test_img, others = []\<rparr>,
     ancestors = [\<lparr>elem = createElement\<lparr>classList := [''enhanced-picture''],
                      dataset_category := Some ''hero'', dataset_imageName := Some ''test-image''\<rparr>,
                  others = [createElement, createElement]\<rparr>]\<rparr>"
  by (simp add: test_dom_def dom_of_def test_unit_def)

lemma test_dom_level: "fallbackLevel_of test_dom = Num 0"
  by (simp add: test_dom_eq test_img_def fallbackLevel_of_def img_def or_else_def parseInt_level)

lemma test_dom_fallbackSrc:
  "truthy (dataset_fallbackSrc (img test_dom))"
  "to_string (dataset_fallbackSrc (img test_dom)) \<noteq> img_src (img test_dom)"
  by (simp_all add: test_dom_eq test_img_def img_def truthy_def to_string_def)

lemma test_dom_listeners:
  "error_listeners (img test_dom) = 1" "load_listeners (img test_dom) = 1"
  by (simp_all add: test_dom_eq test_img_def img_def)

text \<open>Three \<^verbatim>\<open>error\<close> events on the unit of the tests are three calls of the handler.\<close>

lemma test_dom_three_failures:
  "snd (process_all test_document (constructor, test_dom) [Failure, Failure, Failure])
     = test_dom_failed"
  by (simp add: process_all_def test_document_def new_document_def
        setupImageErrorHandling_def test_dom_eq test_dom_failed_def test_img_def
        js_defs dom_defs fsm_defs Let_def)

lemma test_dom_failed_level: "fallbackLevel_of test_dom_failed = Num 3"
  by (simp add: test_dom_failed_def fallbackLevel_of_def img_def or_else_def parseInt_level)

lemma test_dom_failed_closest: "closest container_selector test_dom_failed = Some 1"
  by (simp add: test_dom_failed_def test_img_def dom_defs container_selector_def)

lemma test_dom_failed_presentation: "failed_presentation test_dom_failed"
  by (simp add: failed_presentation_def test_dom_failed_closest)
     (simp add: test_dom_failed_def test_img_def dom_defs)


section \<open>The claims\<close>

text \<open>
  C1. The claim is one level for each failure event. In the page one \<^verbatim>\<open>error\<close> event runs
  the handler twice: \<^verbatim>\<open>init\<close> puts a capturing listener on the document, which calls
  \<^verbatim>\<open>handleImageError\<close> for every image, and the builder gives the image of each unit a
  listener of its own, which calls \<^verbatim>\<open>handleEnhancedImageError\<close>. The unit of
  \<^verbatim>\<open>hero/test-image\<close> is at level 0 with an alternate source that differs from its source;
  one call of the handler leaves level 1, but the first \<^verbatim>\<open>error\<close> event of the unit in the
  page leaves level 2 with the image hidden and its container marked as a placeholder, and
  the second event leaves level 3.
\<close>

theorem error_event_runs_handler_twice:
  "createPictureElement webp_runtime test_manager ''hero'' ''test-image'' [] \<lparr>eager = False\<rparr>
     = Inr test_unit
   \<and> images (children test_unit) = [img page_dom]
   \<and> error_listeners (img page_dom) = 1
   \<and> page_document = \<lparr>capture_error_listeners = 1, contains_image = True\<rparr>
   \<and> fallbackLevel_of page_dom = Num 0
   \<and> truthy (dataset_fallbackSrc (img page_dom))
   \<and> to_string (dataset_fallbackSrc (img page_dom)) \<noteq> img_src (img page_dom)
   \<and> fallbackLevel_of (snd (handleEnhancedImageError test_manager page_dom)) = Num 1
   \<and> fallbackLevel_of (snd (process page_document (test_manager, page_dom) Failure)) = Num 2
   \<and> style_display (img (snd (process page_document (test_manager, page_dom) Failure))) = ''none''
   \<and> classList_contains ''image-placeholder''
        (elem (path (snd (process page_document (test_manager, page_dom) Failure)) ! 1))
   \<and> fallbackLevel_of
        (snd (process_all page_document (test_manager, page_dom) [Failure, Failure])) = Num 3"
proof -
  have d: "page_document = \<lparr>capture_error_listeners = 1, contains_image = True\<rparr>"
    by (simp add: page_document_def replaceChild_def setupImageErrorHandling_def new_document_def)
  have i: "img page_dom = test_img"
    by (simp add: page_dom_def test_dom_eq img_def)
  have l: "fallbackLevel_of page_dom = Num 0"
    by (simp add: fallbackLevel_of_def i test_img_def or_else_def parseInt_level)
  have 1: "fallbackLevel_of (snd (handleEnhancedImageError test_manager page_dom)) = Num 1"
    by (simp add: page_dom_def test_dom_eq test_img_def js_defs dom_defs fsm_defs Let_def)
  have 2: "fallbackLevel_of (snd (process page_document (test_manager, page_dom) Failure)) = Num 2
     \<and> style_display (img (snd (process page_document (test_manager, page_dom) Failure))) = ''none''
     \<and> classList_contains ''image-placeholder''
          (elem (path (snd (process page_document (test_manager, page_dom) Failure)) ! 1))"
    by (simp add: d handleImageError_def page_dom_def test_dom_eq test_img_def
          js_defs dom_defs fsm_defs Let_def)
  have 3: "fallbackLevel_of
        (snd (process_all page_document (test_manager, page_dom) [Failure, Failure])) = Num 3"
    by (simp add: d handleImageError_def page_dom_def test_dom_eq test_img_def
          js_defs dom_defs fsm_defs Let_def)
  show ?thesis
    using d l 1 2 3 test_unit_built
    by (simp add: i test_unit_def test_img_def truthy_def to_string_def)
qed

text \<open>
  C2. At level 0 with no alternate source, the manager's handler sets the level to 2 at
  once, but \<^verbatim>\<open>handleAboutImageError\<close> calls itself on the unchanged image and does not
  return: on the about image whose markup has no \<^verbatim>\<open>data-fallback-src\<close> the invocation
  has no result, where the manager's handler leaves level 2.
\<close>

theorem handleAboutImageError_does_not_return:
  "fallbackLevel_of about_dom = Num 0
   \<and> dataset_fallbackSrc (img about_dom) = None
   \<and> fallbackLevel_of (snd (handleEnhancedImageError constructor about_dom)) = Num 2
   \<and> handleAboutImageError (Some constructor) about_dom = None"
proof -
  have l: "fallbackLevel_of about_dom = Num 0"
    by (simp add: about_dom_def fallbackLevel_of_def img_def createElement_def or_else_def
          parseInt_level)
  have s: "dataset_fallbackSrc (img about_dom) = None"
    by (simp add: about_dom_def img_def createElement_def)
  have "handleAboutImageError (Some constructor) about_dom = None"
    by (rule handleAboutImageError_diverges [OF l]) (simp add: s truthy_def)
  moreover have "fallbackLevel_of (snd (handleEnhancedImageError constructor about_dom)) = Num 2"
    by (simp add: level_handleEnhancedImageError next_level_def l s truthy_def)
  ultimately show ?thesis using l s by simp
qed

text \<open>
  C3, amended. A failure event processed at level 2 or 3 leaves the image at level 3 in
  the presentation of a failed image (hidden, tagged \<^verbatim>\<open>fallback-final\<close>, its container
  marked \<^verbatim>\<open>image-failed\<close> and holding an error indicator); and for every image in that
  presentation, processing a further failure event leaves the image, its container and
  the rest of the fragment exactly as they are, so no second error indicator is added.
  (The Stats Recorder does record the event.)
\<close>

theorem failed_is_absorbing:
  "(fallbackLevel_of d = Num 2 \<or> fallbackLevel_of d = Num 3 \<longrightarrow>
      fallbackLevel_of (snd (handleEnhancedImageError m d)) = Num 3
      \<and> failed_presentation (snd (handleEnhancedImageError m d)))
   \<and> (failed_presentation d \<longrightarrow>
        fallbackLevel_of d = Num 3 \<and> snd (handleEnhancedImageError m d) = d)"
proof (intro conjI impI)
  assume h: "fallbackLevel_of d = Num 2 \<or> fallbackLevel_of d = Num 3"
  then have "snd (handleEnhancedImageError m d) = handleFinalFallback d"
    by (intro snd_handleEnhancedImageError_default) auto
  then show "failed_presentation (snd (handleEnhancedImageError m d))"
    by (simp add: handleFinalFallback_presentation)
  from h show "fallbackLevel_of (snd (handleEnhancedImageError m d)) = Num 3"
    by (auto simp: level_handleEnhancedImageError next_level_def)
next
  assume p: "failed_presentation d"
  then show l: "fallbackLevel_of d = Num 3"
    by (simp add: failed_presentation_def fallbackLevel_of_def or_else_def parseInt_level)
  then have "snd (handleEnhancedImageError m d) = handleFinalFallback d"
    by (intro snd_handleEnhancedImageError_default) simp_all
  with p show "snd (handleEnhancedImageError m d) = d"
    by (simp add: handleFinalFallback_id)
qed

theorem failed_is_absorbing_witness:
  "fallbackLevel_of test_dom_failed = Num 3
   \<and> failed_presentation test_dom_failed
   \<and> fallbackLevel_of (snd (handleEnhancedImageError constructor test_dom_failed)) = Num 3
   \<and> failed_presentation (snd (handleEnhancedImageError constructor test_dom_failed))
   \<and> snd (handleEnhancedImageError constructor test_dom_failed) = test_dom_failed"
  using failed_is_absorbing [where d = test_dom_failed and m = constructor]
    test_dom_failed_level test_dom_failed_presentation
  by simp

text \<open>
  C3 as it is stated fails on an image that the handlers themselves produce: after
  three failure events on the unit of the tests and one success event the level is 3 and
  the container is no longer marked \<^verbatim>\<open>image-failed\<close>; the next failure event marks it
  again.
\<close>

theorem failed_is_absorbing_counterexample:
  "snd (process_all test_document (constructor, test_dom) [Failure, Failure, Failure])
     = test_dom_failed
   \<and> fallbackLevel_of (handleImageLoad test_dom_failed) = Num 3
   \<and> \<not> classList_contains ''image-failed'' (elem (path (handleImageLoad test_dom_failed) ! 1))
   \<and> classList_contains ''image-failed''
        (elem (path (snd (handleEnhancedImageError constructor (handleImageLoad test_dom_failed))) ! 1))
   \<and> snd (handleEnhancedImageError constructor (handleImageLoad test_dom_failed))
        \<noteq> handleImageLoad test_dom_failed"
proof -
  have a: "fallbackLevel_of (handleImageLoad test_dom_failed) = Num 3"
    using test_dom_failed_level by (simp add: fallbackLevel_of_def level_handleImageLoad)
  have b: "\<not> classList_contains ''image-failed'' (elem (path (handleImageLoad test_dom_failed) ! 1))"
    by (simp add: test_dom_failed_def test_img_def dom_defs container_selector_def
          handleImageLoad_def Let_def)
  have c: "classList_contains ''image-failed''
        (elem (path (snd (handleEnhancedImageError constructor (handleImageLoad test_dom_failed))) ! 1))"
    by (simp add: test_dom_failed_def test_img_def js_defs dom_defs fsm_defs Let_def)
  from b c have "snd (handleEnhancedImageError constructor (handleImageLoad test_dom_failed))
        \<noteq> handleImageLoad test_dom_failed"
    by auto
  with a b c test_dom_three_failures show ?thesis by simp
qed

text \<open>
  C4, amended. At every level, processing a load-success event marks the image
  \<^verbatim>\<open>loaded\<close>, clears its \<^verbatim>\<open>loading\<close> tag, and clears the marks \<^verbatim>\<open>image-placeholder\<close> and
  \<^verbatim>\<open>image-failed\<close> of its container; it leaves the level attribute, the display style
  and every other tag of the image (\<^verbatim>\<open>fallback-secondary\<close>, \<^verbatim>\<open>fallback-tertiary\<close>,
  \<^verbatim>\<open>fallback-final\<close> among them) as they are, so the level does not go back to Primary.
\<close>

theorem load_success_marks_loaded:
  "classList_contains ''loaded'' (img (handleImageLoad d))
   \<and> \<not> classList_contains ''loading'' (img (handleImageLoad d))
   \<and> (closest container_selector d = Some c \<longrightarrow>
        \<not> classList_contains ''image-placeholder'' (elem (path (handleImageLoad d) ! c))
        \<and> \<not> classList_contains ''image-failed'' (elem (path (handleImageLoad d) ! c)))
   \<and> dataset_fallbackLevel (img (handleImageLoad d)) = dataset_fallbackLevel (img d)
   \<and> fallbackLevel_of (handleImageLoad d) = fallbackLevel_of d
   \<and> style_display (img (handleImageLoad d)) = style_display (img d)
   \<and> (x \<notin> {''loaded'', ''loading'', ''image-placeholder'', ''image-failed''} \<longrightarrow>
        classList_contains x (img (handleImageLoad d)) = classList_contains x (img d))"
proof (intro conjI impI)
  show "classList_contains ''loaded'' (img (handleImageLoad d))"
    by (rule handleImageLoad_props)
  show "\<not> classList_contains ''loading'' (img (handleImageLoad d))"
    by (rule handleImageLoad_props)
  show "dataset_fallbackLevel (img (handleImageLoad d)) = dataset_fallbackLevel (img d)"
    by (rule handleImageLoad_props)
  then show "fallbackLevel_of (handleImageLoad d) = fallbackLevel_of d"
    by (simp add: fallbackLevel_of_def)
  show "style_display (img (handleImageLoad d)) = style_display (img d)"
    by (rule handleImageLoad_props)
  show "classList_contains x (img (handleImageLoad d)) = classList_contains x (img d)"
    if "x \<notin> {''loaded'', ''loading'', ''image-placeholder'', ''image-failed''}"
    using that by (rule handleImageLoad_props)
  assume c: "closest container_selector d = Some c"
  from handleImageLoad_props(3) [OF c]
  show "\<not> classList_contains ''image-placeholder'' (elem (path (handleImageLoad d) ! c))"
    and "\<not> classList_contains ''image-failed'' (elem (path (handleImageLoad d) ! c))"
    by simp_all
qed

theorem load_success_marks_loaded_witness:
  "closest container_selector test_dom_failed = Some 1
   \<and> ''fallback-final'' \<notin> {''loaded'', ''loading'', ''image-placeholder'', ''image-failed''}
   \<and> classList_contains ''loaded'' (img (handleImageLoad test_dom_failed))
   \<and> \<not> classList_contains ''image-placeholder'' (elem (path (handleImageLoad test_dom_failed) ! 1))
   \<and> \<not> classList_contains ''image-failed'' (elem (path (handleImageLoad test_dom_failed) ! 1))
   \<and> fallbackLevel_of (handleImageLoad test_dom_failed) = Num 3
   \<and> classList_contains ''fallback-final'' (img (handleImageLoad test_dom_failed))"
proof -
  have "classList_contains ''fallback-final'' (img test_dom_failed)"
    by (simp add: test_dom_failed_def test_img_def img_def classList_contains_def)
  with load_success_marks_loaded [where d = test_dom_failed and c = 1 and x = "''fallback-final''"]
    test_dom_failed_closest test_dom_failed_level
  show ?thesis by simp
qed

text \<open>
  C4 as it is stated fails: after the success event the failed image of the test
  unit still carries its tags \<^verbatim>\<open>fallback-tertiary\<close> and \<^verbatim>\<open>fallback-final\<close> and is still
  hidden.
\<close>

theorem load_success_counterexample:
  "snd (process_all test_document (constructor, test_dom) [Failure, Failure, Failure])
     = test_dom_failed
   \<and> classList_contains ''fallback-tertiary'' (img (handleImageLoad test_dom_failed))
   \<and> classList_contains ''fallback-final'' (img (handleImageLoad test_dom_failed))
   \<and> style_display (img (handleImageLoad test_dom_failed)) = ''none''"
  using test_dom_three_failures
  by (simp add: test_dom_failed_def test_img_def dom_defs container_selector_def
        handleImageLoad_def Let_def)

text \<open>
  C5, amended. Once the image is failed (level 3) its level no longer changes: after any
  sequence of failure and success events it is still 3. Being marked loaded does not
  freeze the level: at level 0, 1 or 2 a failure event processed after a success event
  raises the level.
\<close>

theorem level_frozen_once_failed:
  "(fallbackLevel_of d = Num 3 \<longrightarrow>
      fallbackLevel_of (snd (process_all doc (m, d) evs)) = Num 3)
   \<and> (fallbackLevel_of d = Num n \<and> 0 \<le> n \<and> n < 3 \<longrightarrow>
        classList_contains ''loaded'' (img (handleImageLoad d))
        \<and> (\<exists>n'. fallbackLevel_of (snd (handleEnhancedImageError m (handleImageLoad d))) = Num n'
                \<and> n < n' \<and> n' \<le> 3))"
proof (intro conjI impI)
  assume "fallbackLevel_of d = Num 3"
  then show "fallbackLevel_of (snd (process_all doc (m, d) evs)) = Num 3"
    using level3_absorbing [of "(m, d)" doc evs] by simp
next
  assume h: "fallbackLevel_of d = Num n \<and> 0 \<le> n \<and> n < 3"
  show "classList_contains ''loaded'' (img (handleImageLoad d))"
    by (rule handleImageLoad_props)
  from h have "fallbackLevel_of (handleImageLoad d) = Num n"
    by (simp add: fallbackLevel_of_def level_handleImageLoad)
  with h show "\<exists>n'. fallbackLevel_of (snd (handleEnhancedImageError m (handleImageLoad d))) = Num n'
                \<and> n < n' \<and> n' \<le> 3"
    by (simp add: level_handleEnhancedImageError next_level_raises)
qed

theorem level_frozen_once_failed_witness:
  "fallbackLevel_of test_dom_failed = Num 3
   \<and> fallbackLevel_of
        (snd (process_all page_document (constructor, test_dom_failed) [Failure, Success, Failure]))
       = Num 3
   \<and> fallbackLevel_of test_dom = Num 0
   \<and> classList_contains ''loaded'' (img (handleImageLoad test_dom))"
  using level_frozen_once_failed
      [where d = test_dom_failed and m = constructor and doc = page_document
         and evs = "[Failure, Success, Failure]"]
    level_frozen_once_failed [where d = test_dom and n = 0 and m = constructor]
    test_dom_failed_level test_dom_level
  by simp

text \<open>
  C5 as it is stated fails: the image of the test unit is marked loaded by a success
  event at level 0, and the failure event that follows moves its level to 1.
\<close>

theorem level_frozen_counterexample:
  "classList_contains ''loaded''
     (img (snd (process_all test_document (constructor, test_dom) [Success])))
   \<and> fallbackLevel_of (snd (process_all test_document (constructor, test_dom) [Success])) = Num 0
   \<and> fallbackLevel_of (snd (process_all test_document (constructor, test_dom) [Success, Failure]))
       = Num 1"
  by (simp add: test_document_def new_document_def setupImageErrorHandling_def
        test_dom_eq test_img_def js_defs dom_defs fsm_defs Let_def)

text \<open>
  C6, amended. For a category among hero, services, about and reviews and a name that is
  neither a key of the category in the loaded metadata nor a name that a plain object
  inherits from \<^verbatim>\<open>Object.prototype\<close>, the builder returns a unit that holds one image, whose
  source is the category's path in the table of \<^verbatim>\<open>getFallbackImage\<close>, and whose alt text is
  the category's phrase, `` - '' and the name with its hyphens replaced by spaces for hero,
  about and reviews, and for services the name with its hyphens replaced by spaces,
  `` - '' and the phrase: the name comes first there.
\<close>

theorem fallback_unit_src_alt:
  assumes "own_record m category imageName = None"
    and "imageName \<notin> set object_prototype_names"
    and "category \<in> {''hero'', ''services'', ''about'', ''reviews''}"
  shows "\<exists>p e. createPictureElement rt m category imageName className opts = Inr p
     \<and> children p = [Img e]
     \<and> img_src e = getFallbackImage category
     \<and> img_src e = (if category = ''hero'' then ''images/hero-bg.jpg''
                     else if category = ''services'' then ''images/residential-service.jpg''
                     else if category = ''about'' then ''images/radius-logo2.png''
                     else ''images/hero-bg.jpg'')
     \<and> img_alt e = (if category = ''services''
                     then replace_hyphens imageName @ '' - '' @ category_phrase category
                     else category_phrase category @ '' - '' @ replace_hyphens imageName)"
proof -
  have "lookup_imageData rt m category imageName = Inr None"
    by (rule lookup_imageData_absent [OF assms(1) category_not_inherited [OF assms(3)] assms(2)])
  from createPictureElement_absent [OF this, of className opts]
  obtain p e where e: "createPictureElement rt m category imageName className opts = Inr p"
    "children p = [Img e]"
    "img_src e = getFallbackImage category" "img_alt e = generateAltText category imageName"
    by blast
  from assms(3) consider "category = ''hero''" | "category = ''services''"
    | "category = ''about''" | "category = ''reviews''" by blast
  then have "img_src e = (if category = ''hero'' then ''images/hero-bg.jpg''
                     else if category = ''services'' then ''images/residential-service.jpg''
                     else if category = ''about'' then ''images/radius-logo2.png''
                     else ''images/hero-bg.jpg'')
     \<and> img_alt e = (if category = ''services''
                     then replace_hyphens imageName @ '' - '' @ category_phrase category
                     else category_phrase category @ '' - '' @ replace_hyphens imageName)"
  proof cases
    case 1
    then show ?thesis
      by (simp add: e getFallbackImage_table generateAltText_table category_phrase_table)
  next
    case 2
    then show ?thesis
      by (simp add: e getFallbackImage_table generateAltText_table category_phrase_table)
  next
    case 3
    then show ?thesis
      by (simp add: e getFallbackImage_table generateAltText_table category_phrase_table)
  next
    case 4
    then show ?thesis
      by (simp add: e getFallbackImage_table generateAltText_table category_phrase_table)
  qed
  with e(1,2,3) show ?thesis by (intro exI [of _ p] exI [of _ e]) simp
qed

theorem fallback_unit_src_alt_witness:
  "own_record (constructor\<lparr>imageMetadata := Some createFallbackMetadata\<rparr>)
      ''hero'' ''main-plumber'' = None
   \<and> ''main-plumber'' \<notin> set object_prototype_names
   \<and> ''hero'' \<in> {''hero'', ''services'', ''about'', ''reviews''}
   \<and> (\<exists>p e. createPictureElement png_runtime
               (constructor\<lparr>imageMetadata := Some createFallbackMetadata\<rparr>)
               ''hero'' ''main-plumber'' [] \<lparr>eager = False\<rparr> = Inr p
          \<and> children p = [Img e]
          \<and> img_src e = ''images/hero-bg.jpg''
          \<and> img_alt e = ''Professional plumbing services Milwaukee - main plumber'')"
proof -
  have "own_record (constructor\<lparr>imageMetadata := Some createFallbackMetadata\<rparr>)
      ''hero'' ''main-plumber'' = None"
    by (simp add: own_record_def constructor_def createFallbackMetadata_def)
  moreover have "''main-plumber'' \<notin> set object_prototype_names"
    by (simp add: object_prototype_names_def)
  ultimately show ?thesis
    using fallback_unit_src_alt [where m = "constructor\<lparr>imageMetadata := Some createFallbackMetadata\<rparr>"
      and category = "''hero''" and imageName = "''main-plumber''" and rt = png_runtime
      and className = "[]" and opts = "\<lparr>eager = False\<rparr>"]
    by (auto simp: category_phrase_def replace_hyphens_def)
qed

text \<open>
  C6 as it is stated fails for services: the alt text of the unit built for
  services/bathroom-repair starts with the name, not with the phrase of the category. It
  also fails for a name that the metadata do not have and every plain object inherits:
  the lookup of hero/toString answers the function \<^verbatim>\<open>Object.prototype.toString\<close>, the
  builder takes it for a record, and the source of the image is \<^verbatim>\<open>undefined\<close>, not
  the path of the category.
\<close>

theorem fallback_unit_alt_counterexample:
  "own_record (constructor\<lparr>imageMetadata := Some createFallbackMetadata\<rparr>)
      ''services'' ''bathroom-repair'' = None
   \<and> map_sum id (\<lambda>p. map img_alt (images (children p)))
        (createPictureElement png_runtime (constructor\<lparr>imageMetadata := Some createFallbackMetadata\<rparr>)
           ''services'' ''bathroom-repair'' [] \<lparr>eager = False\<rparr>)
       = Inr [''bathroom repair - Radius Works Milwaukee plumbing services'']
   \<and> ''bathroom repair - Radius Works Milwaukee plumbing services''
        \<noteq> category_phrase ''services'' @ '' - '' @ replace_hyphens ''bathroom-repair''
   \<and> own_record (constructor\<lparr>imageMetadata := Some createFallbackMetadata\<rparr>)
        ''hero'' ''toString'' = None
   \<and> map_sum id (\<lambda>p. map img_src (images (children p)))
        (createPictureElement png_runtime (constructor\<lparr>imageMetadata := Some createFallbackMetadata\<rparr>)
           ''hero'' ''toString'' [] \<lparr>eager = False\<rparr>)
       = Inr [''undefined'']
   \<and> getFallbackImage ''hero'' = ''images/hero-bg.jpg''"
  by (simp add: createPictureElement_def createFallbackPictureElement_def lookup_imageData_def
       own_record_def object_prototype_names_def no_fields_def to_string_def
       constructor_def createFallbackMetadata_def generateAltText_table getFallbackImage_table
       category_phrase_def replace_hyphens_def)

text \<open>
  C7. For a record with a WebP source: when \<^verbatim>\<open>checkWebPSupport\<close> reports support, the
  first child of the built unit is the candidate of the WebP source, and the candidates
  after it are standard ones (the standard candidate is there when the record has an
  optimized source); when it reports no support, no candidate of the unit is a WebP
  candidate: the candidates are the standard one alone, or none.
\<close>

theorem webp_candidate:
  assumes "lookup_imageData rt m category imageName = Inr (Some r)" and "truthy (webp r)"
  shows "\<exists>p. createPictureElement rt m category imageName className opts = Inr p
       \<and> (checkWebPSupport rt \<longrightarrow>
           (\<exists>rest e. children p
                 = Source \<lparr>srcset = to_string (webp r), source_type = ''image/webp'',
                            dataset_format = ''webp''\<rparr> # map Source rest @ [Img e]
              \<and> list_all (\<lambda>s. dataset_format s = ''standard'') rest
              \<and> (truthy (optimized r) \<longrightarrow> rest \<noteq> [])))
       \<and> (\<not> checkWebPSupport rt \<longrightarrow>
            list_all (\<lambda>s. dataset_format s \<noteq> ''webp'') (candidates (children p))
            \<and> candidates (children p)
                = (if truthy (optimized r)
                   then [\<lparr>srcset = to_string (optimized r),
                          source_type = getImageMimeType (to_string (optimized r)),
                          dataset_format = ''standard''\<rparr>]
                   else []))"
proof -
  let ?std = "if truthy (optimized r)
         then [\<lparr>srcset = to_string (optimized r),
                source_type = getImageMimeType (to_string (optimized r)),
                dataset_format = ''standard''\<rparr>] else []"
  from createPictureElement_children [OF assms(1), of className opts]
  obtain p e where p: "createPictureElement rt m category imageName className opts = Inr p"
    and e: "children p =
     (if truthy (webp r) \<and> checkWebPSupport rt
      then [Source \<lparr>srcset = to_string (webp r), source_type = ''image/webp'',
                    dataset_format = ''webp''\<rparr>] else [])
     @ map Source ?std @ [Img e]" by blast
  have std: "list_all (\<lambda>s. dataset_format s = ''standard'') ?std" by simp
  have std': "list_all (\<lambda>s. dataset_format s \<noteq> ''webp'') ?std" by simp
  have "checkWebPSupport rt \<longrightarrow>
           (\<exists>rest e. children p
                 = Source \<lparr>srcset = to_string (webp r), source_type = ''image/webp'',
                            dataset_format = ''webp''\<rparr> # map Source rest @ [Img e]
              \<and> list_all (\<lambda>s. dataset_format s = ''standard'') rest
              \<and> (truthy (optimized r) \<longrightarrow> rest \<noteq> []))"
  proof
    assume "checkWebPSupport rt"
    with e assms(2)
    have "children p
            = Source \<lparr>srcset = to_string (webp r), source_type = ''image/webp'',
                      dataset_format = ''webp''\<rparr> # map Source ?std @ [Img e]"
      by simp
    moreover have "truthy (optimized r) \<longrightarrow> ?std \<noteq> []" by simp
    ultimately show "\<exists>rest e. children p
                 = Source \<lparr>srcset = to_string (webp r), source_type = ''image/webp'',
                            dataset_format = ''webp''\<rparr> # map Source rest @ [Img e]
              \<and> list_all (\<lambda>s. dataset_format s = ''standard'') rest
              \<and> (truthy (optimized r) \<longrightarrow> rest \<noteq> [])"
      using std by (intro exI [of _ ?std] exI [of _ e] conjI)
  qed
  moreover have "\<not> checkWebPSupport rt \<longrightarrow>
            list_all (\<lambda>s. dataset_format s \<noteq> ''webp'') (candidates (children p))
            \<and> candidates (children p) = ?std"
  proof
    assume "\<not> checkWebPSupport rt"
    with e have c: "candidates (children p) = ?std"
      by (simp add: candidates_append candidates_map_Source)
    with std' show "list_all (\<lambda>s. dataset_format s \<noteq> ''webp'') (candidates (children p))
            \<and> candidates (children p) = ?std"
      by simp
  qed
  ultimately show ?thesis using p by (intro exI [of _ p] conjI)
qed

theorem webp_candidate_witness:
  "lookup_imageData webp_runtime test_manager ''hero'' ''test-image'' = Inr (Some test_record)
   \<and> lookup_imageData png_runtime test_manager ''hero'' ''test-image'' = Inr (Some test_record)
   \<and> truthy (webp test_record)
   \<and> checkWebPSupport webp_runtime
   \<and> (\<exists>p. createPictureElement webp_runtime test_manager ''hero'' ''test-image'' []
             \<lparr>eager = False\<rparr> = Inr p
        \<and> candidates (children p)
            = [\<lparr>srcset = ''images/optimized/hero/test-image.webp'', source_type = ''image/webp'',
                dataset_format = ''webp''\<rparr>,
               \<lparr>srcset = ''images/optimized/hero/test-image.png'', source_type = ''image/png'',
                dataset_format = ''standard''\<rparr>])
   \<and> \<not> checkWebPSupport png_runtime
   \<and> (\<exists>p. createPictureElement png_runtime test_manager ''hero'' ''test-image'' []
             \<lparr>eager = False\<rparr> = Inr p
        \<and> list_all (\<lambda>s. dataset_format s \<noteq> ''webp'') (candidates (children p)))"
proof -
  have t: "truthy (webp test_record)"
    by (simp add: test_record_def truthy_def)
  have c: "\<exists>p. createPictureElement webp_runtime test_manager ''hero'' ''test-image'' []
             \<lparr>eager = False\<rparr> = Inr p
        \<and> candidates (children p)
            = [\<lparr>srcset = ''images/optimized/hero/test-image.webp'', source_type = ''image/webp'',
                dataset_format = ''webp''\<rparr>,
               \<lparr>srcset = ''images/optimized/hero/test-image.png'', source_type = ''image/png'',
                dataset_format = ''standard''\<rparr>]"
    using test_unit_built by (simp add: test_unit_def)
  from webp_candidate [OF test_lookup t, of png_runtime "[]" "\<lparr>eager = False\<rparr>"]
    checkWebPSupport_png_runtime
  have n: "\<exists>p. createPictureElement png_runtime test_manager ''hero'' ''test-image'' []
             \<lparr>eager = False\<rparr> = Inr p
        \<and> list_all (\<lambda>s. dataset_format s \<noteq> ''webp'') (candidates (children p))"
    by blast
  from test_lookup t c n checkWebPSupport_webp_runtime checkWebPSupport_png_runtime
  show ?thesis by simp
qed

text \<open>
  C8. Starting from a recorder with no entry, recording (hero, x, 1) and then (hero, x, 2)
  gives the key hero/x the count 2 and the levels [1, 2]; and \<open>resetFallbackStats\<close> leaves
  the statistics mapping empty, whatever it held.
\<close>

theorem stats_record_twice_then_reset:
  "getFallbackStats
     (stats_run constructor
        [Record (Some ''hero'') (Some ''x'') (Num 1), Record (Some ''hero'') (Some ''x'') (Num 2)])
     ''hero/x'' = Some \<lparr>levels = [Num 1, Num 2], count = 2\<rparr>
   \<and> getFallbackStats
       (stats_run (resetFallbackStats constructor)
          [Record (Some ''hero'') (Some ''x'') (Num 1), Record (Some ''hero'') (Some ''x'') (Num 2)])
       ''hero/x'' = Some \<lparr>levels = [Num 1, Num 2], count = 2\<rparr>
   \<and> getFallbackStats (resetFallbackStats m) = Map.empty
   \<and> dom (getFallbackStats (resetFallbackStats m)) = {}"
  by (simp add: stats_run_def getFallbackStats_def trackFallbackUsage_def resetFallbackStats_def
        constructor_def stats_key_def to_string_def Let_def)

text \<open>
  C9. \<^verbatim>\<open>loadImageMetadata\<close> always returns to its caller. When the metadata file cannot be
  loaded, it logs one warning and the metadata become the skeleton of
  \<^verbatim>\<open>createFallbackMetadata\<close>: the categories hero, services, about and reviews, each an
  empty mapping, and the default social-preview image. A rejected \<^verbatim>\<open>fetch\<close> is such a
  case.
\<close>

theorem metadata_unavailable:
  "(\<exists>out m'. loadImageMetadata fetched m = Inr (out, m'))
   \<and> (cannot_load fetched \<longrightarrow>
        loadImageMetadata fetched m =
          Inr ([Warn ''Could not load image metadata, using fallback system''],
               m\<lparr>imageMetadata := Some createFallbackMetadata\<rparr>))
   \<and> (\<forall>c. categories createFallbackMetadata c =
         (if c \<in> {''hero'', ''services'', ''about'', ''reviews''} then Some Map.empty else None))
   \<and> openGraph_defaultImage (seo createFallbackMetadata) = Some ''images/stock/hero/hero-main-plumber.png''
   \<and> cannot_load (Rejected ''TypeError: Failed to fetch'')"
proof -
  have "openGraph_defaultImage (seo createFallbackMetadata) = Some ''images/stock/hero/hero-main-plumber.png''"
    by (simp add: createFallbackMetadata_def)
  moreover have "cannot_load (Rejected ''TypeError: Failed to fetch'')"
    by (simp add: cannot_load_def)
  ultimately show ?thesis
    by (intro conjI impI allI loadImageMetadata_returns loadImageMetadata_cannot_load
          createFallbackMetadata_categories)
qed

theorem metadata_unavailable_witness:
  "cannot_load (Rejected ''TypeError: Failed to fetch'')
   \<and> loadImageMetadata (Rejected ''TypeError: Failed to fetch'') constructor =
       Inr ([Warn ''Could not load image metadata, using fallback system''],
            constructor\<lparr>imageMetadata := Some createFallbackMetadata\<rparr>)
   \<and> categories createFallbackMetadata ''hero'' = Some Map.empty"
  using metadata_unavailable [of "Rejected ''TypeError: Failed to fetch''" constructor]
  by simp

text \<open>
  C10. After any sequence of record and reset operations on a new manager, every key of the
  statistics mapping has a count equal to the length of its levels; and one record call
  appends exactly its level to the key's levels and adds exactly one to its count (a key
  with no entry yet counting as no level and count 0), leaving every other key as it was.
\<close>

theorem stats_count_is_length:
  "(\<forall>key e. getFallbackStats (stats_run constructor ops) key = Some e
       \<longrightarrow> count e = length (levels e))
   \<and> getFallbackStats (trackFallbackUsage m c n l) (stats_key c n) =
       Some \<lparr>levels = levels (entry_before m (stats_key c n)) @ [l],
             count = count (entry_before m (stats_key c n)) + 1\<rparr>
   \<and> (\<forall>key. key \<noteq> stats_key c n \<longrightarrow>
         getFallbackStats (trackFallbackUsage m c n l) key = getFallbackStats m key)"
proof -
  have "stats_inv (stats_run constructor ops)"
    by (rule stats_inv_run [OF stats_inv_constructor])
  then show ?thesis
    by (simp add: stats_inv_def track_entry track_other)
qed

theorem stats_count_is_length_witness:
  "getFallbackStats
     (stats_run constructor
        [Record (Some ''hero'') (Some ''a'') (Num 0), Reset,
         Record (Some ''hero'') (Some ''a'') (Num 1), Record None None NaN,
         Record (Some ''hero'') (Some ''a'') (Num 2)]) ''hero/a''
     = Some \<lparr>levels = [Num 1, Num 2], count = 2\<rparr>
   \<and> count \<lparr>levels = [Num 1, Num 2], count = 2\<rparr> = length (levels \<lparr>levels = [Num 1, Num 2], count = 2\<rparr>)
   \<and> ''undefined/undefined'' \<noteq> stats_key (Some ''hero'') (Some ''a'')
   \<and> getFallbackStats (trackFallbackUsage constructor (Some ''hero'') (Some ''a'') (Num 1))
        ''undefined/undefined'' = getFallbackStats constructor ''undefined/undefined''"
  using stats_count_is_length [of
      "[Record (Some ''hero'') (Some ''a'') (Num 0), Reset,
        Record (Some ''hero'') (Some ''a'') (Num 1), Record None None NaN,
        Record (Some ''hero'') (Some ''a'') (Num 2)]"
      constructor "Some ''hero''" "Some ''a''" "Num 1"]
  by (simp add: stats_run_def getFallbackStats_def trackFallbackUsage_def resetFallbackStats_def
        constructor_def stats_key_def to_string_def Let_def)

end
